theory Spec2Isabelle
  imports Complex_Main
begin

section \<open>Fuzzy controller of \<^verbatim>\<open>fuzzy.py\<close>: errors, indexing, numpy helpers\<close>

text \<open>
  Python exceptions are values. \<open>IndexError\<close>, \<open>KeyError\<close> and \<open>ValueError\<close> are raised
  by the interpreter and by numpy (list index out of range, missing dictionary key, shapes that
  do not broadcast); \<open>AssertionError\<close> stands for a failure inside the membership-function
  library. \<open>InvalidShapeParameters\<close> and \<open>DegenerateAggregate\<close> are the two error kinds
  that the specification names; no statement of \<^verbatim>\<open>fuzzy.py\<close> raises them.
\<close>

datatype exn =
    IndexError
  | KeyError
  | ValueError
  | AssertionError
  | InvalidShapeParameters
  | DegenerateAggregate

text \<open>Sequencing of computations that may raise: the first exception aborts the rest.\<close>

definition bind :: "exn + 'a \<Rightarrow> ('a \<Rightarrow> exn + 'b) \<Rightarrow> exn + 'b" where
  "bind m f = (case m of Inl e \<Rightarrow> Inl e | Inr x \<Rightarrow> f x)"

text \<open>A list comprehension whose body may raise: elements are evaluated left to right.\<close>

fun traverse :: "('a \<Rightarrow> exn + 'b) \<Rightarrow> 'a list \<Rightarrow> exn + 'b list" where
  "traverse f [] = Inr []"
| "traverse f (x # xs) = bind (f x) (\<lambda>y. bind (traverse f xs) (\<lambda>ys. Inr (y # ys)))"

text \<open>\<^verbatim>\<open>xs[i]\<close> for a non-negative literal index: out of range raises \<open>IndexError\<close>.\<close>

definition idx :: "'a list \<Rightarrow> nat \<Rightarrow> exn + 'a" where
  "idx xs i = (if i < length xs then Inr (xs ! i) else Inl IndexError)"

text \<open>
  \<^verbatim>\<open>np.fmin(s, curve)\<close> with a scalar \<open>s\<close>: a new array, the element-wise minimum.
  \<^verbatim>\<open>np.fmax(xs, ys)\<close> on two one-dimensional arrays: element-wise maximum when the
  lengths agree, a length-one array is broadcast, anything else raises \<open>ValueError\<close>.
\<close>

definition np_fmin :: "real \<Rightarrow> real list \<Rightarrow> real list" where
  "np_fmin s curve = map (min s) curve"

definition np_fmax :: "real list \<Rightarrow> real list \<Rightarrow> exn + real list" where
  "np_fmax xs ys =
     (if length xs = length ys then Inr (map2 max xs ys)
      else if length xs = 1 then Inr (map (max (hd xs)) ys)
      else if length ys = 1 then Inr (map (\<lambda>x. max x (hd ys)) xs)
      else Inl ValueError)"

section \<open>Rule-strength matrix\<close>

text \<open>
  \<^verbatim>\<open>
  def fuzzy_matrix(muval_e, muval_de):
      return np.array([ [min(a,b) for a in muval_e] for b in muval_de])
  \<close>
  One row per delta-error degree \<open>b\<close>, one column per error degree \<open>a\<close>.
\<close>

definition fuzzy_matrix :: "real list \<Rightarrow> real list \<Rightarrow> real list list" where
  "fuzzy_matrix muval_e muval_de = map (\<lambda>b. map (\<lambda>a. min a b) muval_e) muval_de"

section \<open>Rule base\<close>

text \<open>
  The five output terms, in the order of the slots \<^verbatim>\<open>b[2][0]\<close> .. \<^verbatim>\<open>b[2][4]\<close>; they are
  the local variables \<^verbatim>\<open>NM, NS, Z, PS, PM\<close> of \<^verbatim>\<open>rule_base\<close>.
\<close>

datatype out_term = NM | NS | Z | PS | PM

fun term_index :: "out_term \<Rightarrow> nat" where
  "term_index NM = 0"
| "term_index NS = 1"
| "term_index Z = 2"
| "term_index PS = 3"
| "term_index PM = 4"

text \<open>
  The cells each \<^verbatim>\<open>max(...)\<close> of \<^verbatim>\<open>rule_base\<close> reads, as written there: a pair \<open>(i, j)\<close>
  stands for \<^verbatim>\<open>f_mat[i][j]\<close>, in argument order.
  \<^verbatim>\<open>
  NM = max(f_mat[0][0], f_mat[0][1], f_mat[1][0], f_mat[1][1], f_mat[2][0], f_mat[3][0])
  NS = max(f_mat[0][2], f_mat[1][2], f_mat[2][1], f_mat[3][1], f_mat[4][0])
  Z  = max(f_mat[0][3], f_mat[2][2], f_mat[4][1])
  PS = max(f_mat[0][4], f_mat[1][3], f_mat[2][3], f_mat[3][2], f_mat[4][2])
  PM = max(f_mat[1][4], f_mat[2][4], f_mat[3][4], f_mat[3][3], f_mat[4][3], f_mat[4][4])
  \<close>
\<close>

fun rule_cells :: "out_term \<Rightarrow> (nat \<times> nat) list" where
  "rule_cells NM = [(0,0), (0,1), (1,0), (1,1), (2,0), (3,0)]"
| "rule_cells NS = [(0,2), (1,2), (2,1), (3,1), (4,0)]"
| "rule_cells Z  = [(0,3), (2,2), (4,1)]"
| "rule_cells PS = [(0,4), (1,3), (2,3), (3,2), (4,2)]"
| "rule_cells PM = [(1,4), (2,4), (3,4), (3,3), (4,3), (4,4)]"

text \<open>\<^verbatim>\<open>f_mat[i][j]\<close>: either index out of range raises \<open>IndexError\<close>.\<close>

definition cell :: "real list list \<Rightarrow> nat \<times> nat \<Rightarrow> exn + real" where
  "cell f_mat p = bind (idx f_mat (fst p)) (\<lambda>row. idx row (snd p))"

text \<open>Python's \<^verbatim>\<open>max(v, w, ...)\<close>: a running maximum over the arguments.\<close>

fun py_max :: "real \<Rightarrow> real list \<Rightarrow> real" where
  "py_max v [] = v"
| "py_max v (w # ws) = py_max (max v w) ws"

text \<open>The aggregated strength of one output term: the arguments are read, then \<^verbatim>\<open>max\<close>ed.\<close>

definition strength :: "real list list \<Rightarrow> out_term \<Rightarrow> exn + real" where
  "strength f_mat T =
     bind (traverse (cell f_mat) (rule_cells T))
       (\<lambda>vs. case vs of [] \<Rightarrow> Inl ValueError | v # ws \<Rightarrow> Inr (py_max v ws))"

text \<open>
  One pair of statements of \<^verbatim>\<open>rule_base\<close>, for the term \<open>T\<close> with slot \<open>k\<close>:
  \<^verbatim>\<open>
  T = max(...)
  b[2][k] = np.fmin(T, b[2][k])
  \<close>
  The assignment replaces slot \<open>k\<close> of the list \<^verbatim>\<open>b[2]\<close> that the caller passed in; the
  model returns the updated \<open>b\<close>.
\<close>

definition clip :: "real list list list \<Rightarrow> real list list \<Rightarrow> out_term \<Rightarrow> exn + real list list list" where
  "clip b f_mat T =
     bind (strength f_mat T) (\<lambda>s.
     bind (idx b 2) (\<lambda>b2.
     bind (idx b2 (term_index T)) (\<lambda>curve.
     Inr (b[2 := b2[term_index T := np_fmin s curve]]))))"

text \<open>
  \<^verbatim>\<open>rule_base(b, f_mat)\<close>: the five pairs of statements in source order, then
  \<^verbatim>\<open>return b[2]\<close>. The result is the caller's \<open>b\<close> after the call, and the returned list.
\<close>

definition rule_base ::
  "real list list list \<Rightarrow> real list list \<Rightarrow> exn + (real list list list \<times> real list list)" where
  "rule_base b f_mat =
     bind (clip b f_mat NM) (\<lambda>b1.
     bind (clip b1 f_mat NS) (\<lambda>b2.
     bind (clip b2 f_mat Z) (\<lambda>b3.
     bind (clip b3 f_mat PS) (\<lambda>b4.
     bind (clip b4 f_mat PM) (\<lambda>b5.
     bind (idx b5 2) (\<lambda>out. Inr (b5, out)))))))"

text \<open>
  The rule table as the specification prints it (section 4.3): for each output term the
  contributing cells as pairs \<open>(e, d)\<close> of error-term and delta-error-term index.
\<close>

fun spec_cells :: "out_term \<Rightarrow> (nat \<times> nat) set" where
  "spec_cells NM = {(0,0), (1,0), (0,1), (1,1), (0,2), (0,3)}"
| "spec_cells NS = {(2,0), (2,1), (1,2), (1,3), (0,4)}"
| "spec_cells Z  = {(3,0), (2,2), (1,4)}"
| "spec_cells PS = {(4,0), (3,1), (3,2), (2,3), (2,4)}"
| "spec_cells PM = {(4,1), (4,2), (4,3), (3,3), (3,4), (4,4)}"

section \<open>Membership functions\<close>

text \<open>
  The twelve membership-function families come from the library \<^verbatim>\<open>skfuzzy\<close>, whose code is
  not part of the repository: they are parameters of the model. Each takes the sampled domain
  \<open>x\<close> and its shape parameters and returns a curve, or raises.
\<close>

record mf_families =
  trimf    :: "real list \<Rightarrow> real list \<Rightarrow> exn + real list"
  dsigmf   :: "real list \<Rightarrow> real \<Rightarrow> real \<Rightarrow> real \<Rightarrow> real \<Rightarrow> exn + real list"
  gauss2mf :: "real list \<Rightarrow> real \<Rightarrow> real \<Rightarrow> real \<Rightarrow> real \<Rightarrow> exn + real list"
  gaussmf  :: "real list \<Rightarrow> real \<Rightarrow> real \<Rightarrow> exn + real list"
  gbellmf  :: "real list \<Rightarrow> real \<Rightarrow> real \<Rightarrow> real \<Rightarrow> exn + real list"
  piecemf  :: "real list \<Rightarrow> real list \<Rightarrow> exn + real list"
  pimf     :: "real list \<Rightarrow> real \<Rightarrow> real \<Rightarrow> real \<Rightarrow> real \<Rightarrow> exn + real list"
  psigmf   :: "real list \<Rightarrow> real \<Rightarrow> real \<Rightarrow> real \<Rightarrow> real \<Rightarrow> exn + real list"
  sigmf    :: "real list \<Rightarrow> real \<Rightarrow> real \<Rightarrow> exn + real list"
  smf      :: "real list \<Rightarrow> real \<Rightarrow> real \<Rightarrow> exn + real list"
  trapmf   :: "real list \<Rightarrow> real list \<Rightarrow> exn + real list"
  zmf      :: "real list \<Rightarrow> real \<Rightarrow> real \<Rightarrow> exn + real list"

text \<open>
  \<^verbatim>\<open>
  def membership_f(mf, x, abc = [0,0,0], a = 1, b = 2, c = 3, d = 4, abcd = [0,0,0,0]):
      return { 'trimf' : fuzz.trimf(x, abc), 'dsigmf' : fuzz.dsigmf(x, a, b, c, d), ...
             }[mf]
  \<close>
  The dictionary display evaluates its twelve values in order before the lookup; a name that
  is not a key raises \<open>KeyError\<close>.
\<close>

definition membership_f ::
  "mf_families \<Rightarrow> string \<Rightarrow> real list \<Rightarrow> real list \<Rightarrow> real \<Rightarrow> real \<Rightarrow> real \<Rightarrow> real \<Rightarrow> real list
     \<Rightarrow> exn + real list" where
  "membership_f fam mf x abc a b c d abcd =
     bind (trimf fam x abc) (\<lambda>v1.
     bind (dsigmf fam x a b c d) (\<lambda>v2.
     bind (gauss2mf fam x a b c d) (\<lambda>v3.
     bind (gaussmf fam x a b) (\<lambda>v4.
     bind (gbellmf fam x a b c) (\<lambda>v5.
     bind (piecemf fam x abc) (\<lambda>v6.
     bind (pimf fam x a b c d) (\<lambda>v7.
     bind (psigmf fam x a b c d) (\<lambda>v8.
     bind (sigmf fam x a b) (\<lambda>v9.
     bind (smf fam x a b) (\<lambda>v10.
     bind (trapmf fam x abcd) (\<lambda>v11.
     bind (zmf fam x a b) (\<lambda>v12.
     case map_of
            [(''trimf'', v1), (''dsigmf'', v2), (''gauss2mf'', v3), (''gaussmf'', v4),
             (''gbellmf'', v5), (''piecemf'', v6), (''pimf'', v7), (''psigmf'', v8),
             (''sigmf'', v9), (''smf'', v10), (''trapmf'', v11), (''zmf'', v12)] mf of
       None \<Rightarrow> Inl KeyError
     | Some y \<Rightarrow> Inr y))))))))))))"

text \<open>
  The call \<^verbatim>\<open>membership_f(mf, x, a)\<close> with three positional arguments, as \<^verbatim>\<open>run\<close> makes it:
  the remaining parameters take their defaults.
\<close>

definition membership_f3 :: "mf_families \<Rightarrow> string \<Rightarrow> real list \<Rightarrow> real list \<Rightarrow> exn + real list" where
  "membership_f3 fam mf x abc = membership_f fam mf x abc 1 2 3 4 [0, 0, 0, 0]"

section \<open>Fuzzification\<close>

text \<open>
  \<^verbatim>\<open>
  def fuzzify(Input, y, crisp_val):
      f = [fuzz.interp_membership(Input, fuzzy_sset_y, crisp_val) for fuzzy_sset_y in y ]
      return f
  \<close>
  \<^verbatim>\<open>fuzz.interp_membership\<close> is a library function, the parameter \<open>interp\<close>.
\<close>

definition fuzzify ::
  "(real list \<Rightarrow> real list \<Rightarrow> real \<Rightarrow> exn + real) \<Rightarrow> real list \<Rightarrow> real list list \<Rightarrow> real
     \<Rightarrow> exn + real list" where
  "fuzzify interp Input y crisp_val = traverse (\<lambda>fuzzy_sset_y. interp Input fuzzy_sset_y crisp_val) y"

section \<open>The controller\<close>

record fuzzy =
  error     :: real
  delta_e   :: real
  mf_types  :: "string list"
  f_ssets   :: "real list list list"
  io_ranges :: "int list list"

text \<open>
  \<^verbatim>\<open>Fuzzy.__init__(self, mf_types, f_ssets)\<close>: five assignments and no check; it cannot raise.
\<close>

definition Fuzzy_init :: "string list \<Rightarrow> real list list list \<Rightarrow> exn + fuzzy" where
  "Fuzzy_init mfs ssets =
     Inr \<lparr>error = 0, delta_e = 0, mf_types = mfs, f_ssets = ssets, io_ranges = []\<rparr>"

text \<open>\<^verbatim>\<open>np.arange(start, stop, 1)\<close> on integers: \<open>start, start + 1, ..., stop - 1\<close>.\<close>

definition np_arange :: "int \<Rightarrow> int \<Rightarrow> real list" where
  "np_arange start stop = map real_of_int [start..stop - 1]"

text \<open>The body of \<^verbatim>\<open>[np.arange(var[0], var[1]+1, 1) for var in self.io_ranges]\<close>.\<close>

definition axis :: "int list \<Rightarrow> exn + real list" where
  "axis var = bind (idx var 0) (\<lambda>lo. bind (idx var 1) (\<lambda>hi. Inr (np_arange lo (hi + 1))))"

text \<open>
  One turn of the loop \<^verbatim>\<open>for i in range(3)\<close>: the list
  \<^verbatim>\<open>[membership_f(self.mf_types[i], inputs[i], a) for a in self.f_ssets[i]]\<close>.
  The iterable \<^verbatim>\<open>self.f_ssets[i]\<close> is evaluated first; for each \<open>a\<close> the arguments are
  evaluated left to right, then the call is made.
\<close>

definition curves_of :: "mf_families \<Rightarrow> fuzzy \<Rightarrow> real list list \<Rightarrow> nat \<Rightarrow> exn + real list list" where
  "curves_of fam self inputs i =
     bind (idx (f_ssets self) i) (\<lambda>ssets.
       traverse (\<lambda>a.
         bind (idx (mf_types self) i) (\<lambda>mf.
         bind (idx inputs i) (\<lambda>x.
         membership_f3 fam mf x a))) ssets)"

text \<open>
  \<^verbatim>\<open>np.fmax(output[0], np.fmax(output[1], np.fmax(output[2], np.fmax(output[3], output[4]))))\<close>:
  the five operands are read left to right, the calls return innermost first.
\<close>

definition aggregate :: "real list list \<Rightarrow> exn + real list" where
  "aggregate output =
     bind (idx output 0) (\<lambda>o0.
     bind (idx output 1) (\<lambda>o1.
     bind (idx output 2) (\<lambda>o2.
     bind (idx output 3) (\<lambda>o3.
     bind (idx output 4) (\<lambda>o4.
     bind (np_fmax o3 o4) (\<lambda>m3.
     bind (np_fmax o2 m3) (\<lambda>m2.
     bind (np_fmax o1 m2) (\<lambda>m1.
     np_fmax o0 m1))))))))"

text \<open>
  \<^verbatim>\<open>run\<close> up to and including the assignment of \<^verbatim>\<open>aggregated\<close>: the values of the local
  variables \<^verbatim>\<open>inputs\<close>, \<^verbatim>\<open>b\<close> (after \<^verbatim>\<open>rule_base\<close> has written into it), \<^verbatim>\<open>output\<close> and
  \<^verbatim>\<open>aggregated\<close>.
\<close>

definition infer ::
  "mf_families \<Rightarrow> (real list \<Rightarrow> real list \<Rightarrow> real \<Rightarrow> exn + real) \<Rightarrow> fuzzy
     \<Rightarrow> exn + (real list list \<times> real list list list \<times> real list list \<times> real list)" where
  "infer fam interp self =
     bind (traverse axis (io_ranges self)) (\<lambda>inputs.
     bind (traverse (curves_of fam self inputs) [0, 1, 2]) (\<lambda>b.
     bind (idx inputs 0) (\<lambda>in0.
     bind (idx b 0) (\<lambda>b0.
     bind (fuzzify interp in0 b0 (error self)) (\<lambda>muval_e.
     bind (idx inputs 1) (\<lambda>in1.
     bind (idx b 1) (\<lambda>b1.
     bind (fuzzify interp in1 b1 (delta_e self)) (\<lambda>muval_de.
     bind (rule_base b (fuzzy_matrix muval_e muval_de)) (\<lambda>(b', output).
     bind (aggregate output) (\<lambda>aggregated.
     Inr (inputs, b', output, aggregated)))))))))))"

text \<open>
  What a call of \<^verbatim>\<open>run\<close> that does not raise leaves behind: the value it returns to its
  caller (\<open>None\<close> is Python's \<^verbatim>\<open>None\<close>) and, in order, what it printed and which external
  procedures it called.
\<close>

datatype effect =
    Print_output real
  | Visualize_output "real list list list" "real list list" "real list list" real "real list"
  | Plt_show

record outcome =
  returned :: "real option"
  effects  :: "effect list"

text \<open>
  The rest of \<^verbatim>\<open>run\<close>:
  \<^verbatim>\<open>
  out_final  = fuzz.defuzz(inputs[2], aggregated, 'centroid')
  print "output:",out_final
  visualize.visualize_output(b, inputs, output, out_final, aggregated)
  plt.show()
  \<close>
  The body ends there, without a \<^verbatim>\<open>return\<close> statement. \<^verbatim>\<open>fuzz.defuzz\<close> is a library
  function, the parameter \<open>defuzz\<close>.
\<close>

definition run ::
  "mf_families \<Rightarrow> (real list \<Rightarrow> real list \<Rightarrow> real \<Rightarrow> exn + real)
     \<Rightarrow> (real list \<Rightarrow> real list \<Rightarrow> string \<Rightarrow> exn + real) \<Rightarrow> fuzzy \<Rightarrow> exn + outcome" where
  "run fam interp defuzz self =
     bind (infer fam interp self) (\<lambda>(inputs, b, output, aggregated).
     bind (idx inputs 2) (\<lambda>in2.
     bind (defuzz in2 aggregated ''centroid'') (\<lambda>out_final.
     Inr \<lparr>returned = None,
          effects = [Print_output out_final,
                     Visualize_output b inputs output out_final aggregated,
                     Plt_show]\<rparr>)))"

section \<open>Library functions as the specification describes them\<close>

text \<open>
  Modelled from the spec: \<^verbatim>\<open>fuzz.interp_membership\<close> is not in the repository. Section 4.2:
  linearly interpolate the curve's (x, degree) pairs at the crisp value; a crisp value outside
  the sampled domain takes the degree of the nearest boundary sample. The samples are read in
  increasing order of \<open>x\<close>. No sample at all, or a curve whose length differs from the
  domain's, is rejected.
\<close>

fun interp_pairs :: "real \<times> real \<Rightarrow> (real \<times> real) list \<Rightarrow> real \<Rightarrow> real" where
  "interp_pairs (x0, y0) [] v = y0"
| "interp_pairs (x0, y0) ((x1, y1) # ps) v =
     (if v \<le> x0 then y0
      else if v < x1 then y0 + (y1 - y0) * (v - x0) / (x1 - x0)
      else interp_pairs (x1, y1) ps v)"

text \<open>
  Modelled from the spec: the entry point of \<^verbatim>\<open>fuzz.interp_membership\<close>, pairing the domain
  samples with the curve's degrees before interpolating as above.
\<close>

definition interp_membership_spec :: "real list \<Rightarrow> real list \<Rightarrow> real \<Rightarrow> exn + real" where
  "interp_membership_spec xs xmf v =
     (case zip xs xmf of
        [] \<Rightarrow> Inl ValueError
      | p # ps \<Rightarrow> if length xs = length xmf then Inr (interp_pairs p ps v) else Inl ValueError)"

text \<open>
  Modelled from the spec: \<^verbatim>\<open>fuzz.defuzz\<close> is not in the repository. Section 4.5: the centroid
  \<open>sum (x_i * degree_i) / sum degree_i\<close> over all samples; when \<open>sum degree_i = 0\<close> it fails
  with \<open>DegenerateAggregate\<close>. The specification knows the centroid mode only.
\<close>

definition defuzz_spec :: "real list \<Rightarrow> real list \<Rightarrow> string \<Rightarrow> exn + real" where
  "defuzz_spec xs mfx mode =
     (if sum_list mfx = 0 then Inl DegenerateAggregate
      else Inr (sum_list (map2 (*) xs mfx) / sum_list mfx))"

section \<open>A library instance for running the model\<close>

text \<open>
  The theorems below hold for every library. To run the model on concrete inputs one instance
  is fixed: the triangular family is the usual triangle with feet \<open>a\<close>, \<open>c\<close> and peak \<open>b\<close>,
  rejecting anything but three ordered parameters; every other family returns the zero curve
  over \<open>x\<close> (\<^verbatim>\<open>membership_f\<close> calls all twelve, whatever family is configured).
\<close>

definition triangle :: "real \<Rightarrow> real \<Rightarrow> real \<Rightarrow> real \<Rightarrow> real" where
  "triangle a b c x =
     (if x = b then 1
      else if a < x \<and> x < b then (x - a) / (b - a)
      else if b < x \<and> x < c then (c - x) / (c - b)
      else 0)"

definition triangle_mf :: "real list \<Rightarrow> real list \<Rightarrow> exn + real list" where
  "triangle_mf x abc =
     (case abc of
        [a, b, c] \<Rightarrow> if a \<le> b \<and> b \<le> c then Inr (map (triangle a b c) x) else Inl AssertionError
      | _ \<Rightarrow> Inl AssertionError)"

definition zero_curve :: "real list \<Rightarrow> real list" where
  "zero_curve x = map (\<lambda>_. 0) x"

definition example_families :: mf_families where
  "example_families =
     \<lparr>trimf = triangle_mf,
      dsigmf = (\<lambda>x a b c d. Inr (zero_curve x)),
      gauss2mf = (\<lambda>x a b c d. Inr (zero_curve x)),
      gaussmf = (\<lambda>x a b. Inr (zero_curve x)),
      gbellmf = (\<lambda>x a b c. Inr (zero_curve x)),
      piecemf = (\<lambda>x abc. Inr (zero_curve x)),
      pimf = (\<lambda>x a b c d. Inr (zero_curve x)),
      psigmf = (\<lambda>x a b c d. Inr (zero_curve x)),
      sigmf = (\<lambda>x a b. Inr (zero_curve x)),
      smf = (\<lambda>x a b. Inr (zero_curve x)),
      trapmf = (\<lambda>x abcd. Inr (zero_curve x)),
      zmf = (\<lambda>x a b. Inr (zero_curve x))\<rparr>"

text \<open>
  Three controllers over the domains \<open>[-1, 1]\<close>: in the first every term of every variable
  is the triangle \<open>(-1, 0, 1)\<close> and both inputs are zero; the second is the first with the
  inputs \<open>1/2\<close> and \<open>-1/2\<close>; in the third every term is the triangle \<open>(5, 6, 7)\<close>,
  whose support misses the domain.
\<close>

definition example_fuzzy :: fuzzy where
  "example_fuzzy =
     \<lparr>error = 0, delta_e = 0,
      mf_types = [''trimf'', ''trimf'', ''trimf''],
      f_ssets = replicate 3 (replicate 5 [-1, 0, 1]),
      io_ranges = [[-1, 1], [-1, 1], [-1, 1]]\<rparr>"

definition offset_fuzzy :: fuzzy where
  "offset_fuzzy = example_fuzzy\<lparr>error := 1/2, delta_e := - 1/2\<rparr>"

definition silent_fuzzy :: fuzzy where
  "silent_fuzzy =
     \<lparr>error = 0, delta_e = 0,
      mf_types = [''trimf'', ''trimf'', ''trimf''],
      f_ssets = replicate 3 (replicate 5 [5, 6, 7]),
      io_ranges = [[-1, 1], [-1, 1], [-1, 1]]\<rparr>"

section \<open>Properties\<close>

subsection \<open>Exceptions, indexing, comprehensions\<close>

lemma bind_Inl [simp]: "bind (Inl e) f = Inl e"
  and bind_Inr [simp]: "bind (Inr x) f = f x"
  by (simp_all add: bind_def)

lemma bind_eq_Inr: "bind m f = Inr y \<longleftrightarrow> (\<exists>x. m = Inr x \<and> f x = Inr y)"
  by (cases m) simp_all

lemma idx_eq_Inr: "idx xs i = Inr v \<longleftrightarrow> i < length xs \<and> v = xs ! i"
  by (auto simp: idx_def)

lemma traverse_eq_Inr:
  "traverse f xs = Inr ys \<longleftrightarrow> list_all2 (\<lambda>x y. f x = Inr y) xs ys"
proof (induction xs arbitrary: ys)
  case Nil
  show ?case by auto
next
  case (Cons x xs)
  show ?case
    by (cases ys) (auto simp: bind_eq_Inr Cons.IH)
qed

lemma traverse_all_Inr:
  "\<forall>x \<in> set xs. f x = Inr (g x) \<Longrightarrow> traverse f xs = Inr (map g xs)"
  by (induction xs) simp_all

subsection \<open>The rule-strength matrix\<close>

lemma fuzzy_matrix_shape:
  "length (fuzzy_matrix muval_e muval_de) = length muval_de"
  "d < length muval_de \<Longrightarrow> length (fuzzy_matrix muval_e muval_de ! d) = length muval_e"
  by (simp_all add: fuzzy_matrix_def)

lemma fuzzy_matrix_nth:
  "d < length muval_de \<Longrightarrow> e < length muval_e \<Longrightarrow>
   fuzzy_matrix muval_e muval_de ! d ! e = min (muval_e ! e) (muval_de ! d)"
  by (simp add: fuzzy_matrix_def)

text \<open>
  Claim C2. For two membership-degree vectors of five entries each, all in \<open>[0,1]\<close>,
  \<open>fuzzy_matrix\<close> returns five rows of five cells; cell \<open>[d][e]\<close> is the minimum of
  \<open>muval_e[e]\<close> and \<open>muval_de[d]\<close>, lies in \<open>[0,1]\<close> and exceeds neither input degree.
\<close>

theorem fuzzy_matrix_cells:
  assumes "length muval_e = 5" and "length muval_de = 5"
    and "\<forall>a \<in> set muval_e. 0 \<le> a \<and> a \<le> 1"
    and "\<forall>b \<in> set muval_de. 0 \<le> b \<and> b \<le> 1"
    and "d < 5" and "e < 5"
  shows "length (fuzzy_matrix muval_e muval_de) = 5
       \<and> length (fuzzy_matrix muval_e muval_de ! d) = 5
       \<and> fuzzy_matrix muval_e muval_de ! d ! e = min (muval_e ! e) (muval_de ! d)
       \<and> 0 \<le> fuzzy_matrix muval_e muval_de ! d ! e
       \<and> fuzzy_matrix muval_e muval_de ! d ! e \<le> 1
       \<and> fuzzy_matrix muval_e muval_de ! d ! e \<le> muval_e ! e
       \<and> fuzzy_matrix muval_e muval_de ! d ! e \<le> muval_de ! d"
proof -
  have de: "d < length muval_de" and ee: "e < length muval_e"
    using assms by simp_all
  have cell: "fuzzy_matrix muval_e muval_de ! d ! e = min (muval_e ! e) (muval_de ! d)"
    using de ee by (rule fuzzy_matrix_nth)
  have a: "0 \<le> muval_e ! e \<and> muval_e ! e \<le> 1"
    using assms(3) ee nth_mem by blast
  have b: "0 \<le> muval_de ! d \<and> muval_de ! d \<le> 1"
    using assms(4) de nth_mem by blast
  show ?thesis
    using cell a b de assms(1,2) by (simp add: fuzzy_matrix_shape min_le_iff_disj)
qed

theorem fuzzy_matrix_cells_witness:
  "fuzzy_matrix [0, 1/4, 1/2, 3/4, 1] [1, 1/2, 0, 1/3, 1/5] ! 3 ! 1 = 1/4
   \<and> fuzzy_matrix [0, 1/4, 1/2, 3/4, 1] [1, 1/2, 0, 1/3, 1/5] ! 3 ! 1 \<le> 1/3
   \<and> length (fuzzy_matrix [0, 1/4, 1/2, 3/4, 1] [1, 1/2, 0, 1/3, 1/5]) = 5"
  using fuzzy_matrix_cells [of "[0, 1/4, 1/2, 3/4, 1]" "[1, 1/2, 0, 1/3, 1/5]" 3 1]
  by simp

subsection \<open>The rule table\<close>

lemma py_max_Max: "py_max v ws = Max (set (v # ws))"
proof (induction ws arbitrary: v)
  case Nil
  show ?case by simp
next
  case (Cons w ws)
  have "py_max v (w # ws) = Max (insert (max v w) (set ws))"
    using Cons.IH [of "max v w"] by simp
  also have "\<dots> = Max (insert v (insert w (set ws)))"
    by (cases "set ws = {}") (simp_all add: max.assoc)
  finally show ?case by simp
qed

lemma cell_in_range:
  "i < length f_mat \<Longrightarrow> j < length (f_mat ! i) \<Longrightarrow> cell f_mat (i, j) = Inr (f_mat ! i ! j)"
  by (simp add: cell_def idx_def)

lemma rule_cells_bounds: "(i, j) \<in> set (rule_cells T) \<Longrightarrow> i < 5 \<and> j < 5"
  by (cases T) auto

text \<open>On a matrix of five rows of five cells no read fails, and the running maximum is the
  maximum of the cells read.\<close>

lemma strength_Max:
  assumes "length f_mat = 5" and "\<forall>row \<in> set f_mat. length row = 5"
  shows "strength f_mat T = Inr (Max ((\<lambda>(i, j). f_mat ! i ! j) ` set (rule_cells T)))"
proof -
  have "\<forall>p \<in> set (rule_cells T). cell f_mat p = Inr ((\<lambda>(i, j). f_mat ! i ! j) p)"
  proof
    fix p assume p: "p \<in> set (rule_cells T)"
    obtain i j where ij: "p = (i, j)" by (cases p)
    have b: "i < 5 \<and> j < 5" using p ij rule_cells_bounds by blast
    then have "length (f_mat ! i) = 5" using assms by simp
    then show "cell f_mat p = Inr ((\<lambda>(i, j). f_mat ! i ! j) p)"
      using b assms(1) ij by (simp add: cell_in_range)
  qed
  then have t: "traverse (cell f_mat) (rule_cells T)
                = Inr (map (\<lambda>(i, j). f_mat ! i ! j) (rule_cells T))"
    by (rule traverse_all_Inr)
  obtain p ps where ne: "rule_cells T = p # ps" by (cases T) simp_all
  show ?thesis
    unfolding strength_def t by (simp add: ne py_max_Max)
qed

text \<open>The cells the code reads are the cells the specification lists, with the two
  indices in the other order: the code writes \<^verbatim>\<open>f_mat[d][e]\<close>, the table \<open>(e, d)\<close>.\<close>

lemma swap_cells: "(\<lambda>(d, e). (e, d)) ` set (rule_cells T) = spec_cells T"
  by (cases T) auto

lemma spec_cells_disjoint: "T \<noteq> T' \<Longrightarrow> spec_cells T \<inter> spec_cells T' = {}"
  by (cases T; cases T') simp_all

lemma UNIV_out_term: "(UNIV :: out_term set) = {NM, NS, Z, PS, PM}"
  using out_term.exhaust by auto

lemma spec_cells_cover: "(\<Union>T. spec_cells T) = {0..4} \<times> {0..4}"
proof -
  have e: "{0..4::nat} = {0, 1, 2, 3, 4}" by auto
  show ?thesis unfolding UNIV_out_term e by auto
qed

text \<open>
  Claim C1. For two membership-degree vectors of five entries, the strength that
  \<open>rule_base\<close> computes for each output term is the maximum of the matrix cells
  \<open>strength[d][e]\<close>, that is of \<open>min (muval_e[e]) (muval_de[d])\<close>, over the cells \<open>(e, d)\<close>
  that the table of the specification lists for that term; these are exactly the cells the
  code reads for the term; the five cell sets are pairwise disjoint and together they are
  the 25 pairs with both indices in \<open>0..4\<close>.
\<close>

theorem rule_table_partition:
  assumes "length muval_e = 5" and "length muval_de = 5"
  shows "strength (fuzzy_matrix muval_e muval_de) T
           = Inr (Max ((\<lambda>(e, d). fuzzy_matrix muval_e muval_de ! d ! e) ` spec_cells T))
       \<and> strength (fuzzy_matrix muval_e muval_de) T
           = Inr (Max ((\<lambda>(e, d). min (muval_e ! e) (muval_de ! d)) ` spec_cells T))
       \<and> (\<lambda>(d, e). (e, d)) ` set (rule_cells T) = spec_cells T
       \<and> (\<forall>T'. T' \<noteq> T \<longrightarrow> spec_cells T \<inter> spec_cells T' = {})
       \<and> (\<Union>T. spec_cells T) = {0..4} \<times> {0..4}"
proof -
  let ?F = "fuzzy_matrix muval_e muval_de"
  have len: "length ?F = 5" and rows: "\<forall>row \<in> set ?F. length row = 5"
    using assms by (auto simp: fuzzy_matrix_def)
  have img: "(\<lambda>(i, j). ?F ! i ! j) ` set (rule_cells T)
             = (\<lambda>(e, d). ?F ! d ! e) ` spec_cells T"
    unfolding swap_cells [symmetric] image_image by (simp add: case_prod_unfold)
  have s1: "strength ?F T = Inr (Max ((\<lambda>(e, d). ?F ! d ! e) ` spec_cells T))"
    using strength_Max [OF len rows, of T] img by simp
  have "\<forall>p \<in> spec_cells T. fst p < 5 \<and> snd p < 5"
    by (cases T) simp_all
  then have "\<forall>p \<in> spec_cells T.
      (\<lambda>(e, d). ?F ! d ! e) p = (\<lambda>(e, d). min (muval_e ! e) (muval_de ! d)) p"
    using assms by (auto simp: fuzzy_matrix_nth)
  then have "(\<lambda>(e, d). ?F ! d ! e) ` spec_cells T
             = (\<lambda>(e, d). min (muval_e ! e) (muval_de ! d)) ` spec_cells T"
    by (intro image_cong) auto
  with s1 have s2: "strength ?F T
      = Inr (Max ((\<lambda>(e, d). min (muval_e ! e) (muval_de ! d)) ` spec_cells T))"
    by simp
  have dj: "\<forall>T'. T' \<noteq> T \<longrightarrow> spec_cells T \<inter> spec_cells T' = {}"
    using spec_cells_disjoint by blast
  show ?thesis
    using s1 s2 dj swap_cells spec_cells_cover by blast
qed

theorem rule_table_partition_witness:
  "strength (fuzzy_matrix [0, 1/4, 1/2, 3/4, 1] [1, 1/2, 0, 1/3, 1/5]) Z = Inr (3/4)
   \<and> spec_cells Z \<inter> spec_cells PS = {}"
  using rule_table_partition [of "[0, 1/4, 1/2, 3/4, 1]" "[1, 1/2, 0, 1/3, 1/5]" Z]
  by (simp add: fuzzy_matrix_def)

lemma Max_image_mono:
  assumes "finite S" and "S \<noteq> {}" and "\<forall>x \<in> S. g x \<le> (h x :: real)"
  shows "Max (g ` S) \<le> Max (h ` S)"
proof (rule Max.boundedI)
  show "finite (g ` S)" using assms(1) by simp
  show "g ` S \<noteq> {}" using assms(2) by simp
  fix a assume "a \<in> g ` S"
  then obtain x where x: "x \<in> S" "a = g x" by blast
  have "h x \<le> Max (h ` S)" using assms(1) x(1) by simp
  then show "a \<le> Max (h ` S)" using assms(3) x by fastforce
qed

text \<open>
  Claim C8. In a matrix of five rows of five cells, raising one cell \<open>[d][e]\<close> to a value
  \<open>v\<close> not below its old value and leaving every other cell as it is does not lower the
  aggregated strength of any output term: both strengths are computed without error and the
  new one is at least the old one. This holds for every cell, so in particular for a cell
  that contributes to the term.
\<close>

theorem strength_monotone:
  assumes "length f_mat = 5" and "\<forall>row \<in> set f_mat. length row = 5"
    and "d < 5" and "e < 5" and "f_mat ! d ! e \<le> v"
  shows "\<exists>s s'. strength f_mat T = Inr s
              \<and> strength (f_mat[d := (f_mat ! d)[e := v]]) T = Inr s'
              \<and> s \<le> s'"
proof -
  let ?F' = "f_mat[d := (f_mat ! d)[e := v]]"
  have len': "length ?F' = 5" using assms(1) by simp
  have rows': "\<forall>row \<in> set ?F'. length row = 5"
  proof
    fix row assume "row \<in> set ?F'"
    then have "row \<in> insert ((f_mat ! d)[e := v]) (set f_mat)"
      using set_update_subset_insert by fastforce
    moreover have "length (f_mat ! d) = 5" using assms(1,2,3) by simp
    ultimately show "length row = 5" using assms(2) by auto
  qed
  have le: "\<forall>p \<in> set (rule_cells T).
      (\<lambda>(i, j). f_mat ! i ! j) p \<le> (\<lambda>(i, j). ?F' ! i ! j) p"
  proof
    fix p assume p: "p \<in> set (rule_cells T)"
    obtain i j where ij: "p = (i, j)" by (cases p)
    have b: "i < 5 \<and> j < 5" using p ij rule_cells_bounds by blast
    have "f_mat ! i ! j \<le> ?F' ! i ! j"
    proof (cases "i = d")
      case True
      then have "?F' ! i = (f_mat ! d)[e := v]" using assms(1,3) by simp
      moreover have "length (f_mat ! d) = 5" using assms(1,2,3) by simp
      ultimately show ?thesis using True b assms(5) by (cases "j = e") simp_all
    next
      case False
      then show ?thesis by simp
    qed
    then show "(\<lambda>(i, j). f_mat ! i ! j) p \<le> (\<lambda>(i, j). ?F' ! i ! j) p"
      using ij by simp
  qed
  have ne: "set (rule_cells T) \<noteq> {}" by (cases T) simp_all
  have "Max ((\<lambda>(i, j). f_mat ! i ! j) ` set (rule_cells T))
        \<le> Max ((\<lambda>(i, j). ?F' ! i ! j) ` set (rule_cells T))"
    using Max_image_mono [OF _ ne le] by simp
  then show ?thesis
    using strength_Max [OF assms(1,2), of T] strength_Max [OF len' rows', of T] by simp
qed

theorem strength_monotone_witness:
  "strength (replicate 5 [0, 1/4, 1/2, 3/4, 1]) Z = Inr (3/4)
   \<and> strength ((replicate 5 [0, 1/4, 1/2, 3/4, 1])[2 := [0, 1/4, 7/8, 3/4, 1]]) Z = Inr (7/8)"
proof -
  have r: "replicate 5 [0, 1/4, 1/2, 3/4, 1::real]
           = [[0, 1/4, 1/2, 3/4, 1], [0, 1/4, 1/2, 3/4, 1], [0, 1/4, 1/2, 3/4, 1],
              [0, 1/4, 1/2, 3/4, 1], [0, 1/4, 1/2, 3/4, 1]]"
    by (simp add: numeral_eq_Suc)
  show ?thesis
    using strength_monotone [of "replicate 5 [0, 1/4, 1/2, 3/4, 1]" 2 2 "7/8" Z]
    unfolding r
    by (simp add: strength_def cell_def idx_def)
qed

subsection \<open>Clipping writes into the caller's list\<close>

lemma clip_eq_Inr:
  "clip b f_mat T = Inr b' \<longleftrightarrow>
     (\<exists>s. strength f_mat T = Inr s \<and> 2 < length b \<and> term_index T < length (b ! 2)
        \<and> b' = b[2 := (b ! 2)[term_index T := np_fmin s (b ! 2 ! term_index T)]])"
  by (auto simp: clip_def bind_eq_Inr idx_eq_Inr)

lemma rule_base_Inr:
  assumes "rule_base b f_mat = Inr (b', output)"
  shows "\<exists>s0 s1 s2 s3 s4.
           strength f_mat NM = Inr s0 \<and> strength f_mat NS = Inr s1 \<and> strength f_mat Z = Inr s2
         \<and> strength f_mat PS = Inr s3 \<and> strength f_mat PM = Inr s4
         \<and> 2 < length b \<and> 4 < length (b ! 2)
         \<and> output = (b ! 2)[0 := np_fmin s0 (b ! 2 ! 0), 1 := np_fmin s1 (b ! 2 ! 1),
                            2 := np_fmin s2 (b ! 2 ! 2), 3 := np_fmin s3 (b ! 2 ! 3),
                            4 := np_fmin s4 (b ! 2 ! 4)]
         \<and> b' = b[2 := output]"
  using assms
  unfolding rule_base_def bind_eq_Inr clip_eq_Inr idx_eq_Inr
  by (auto simp: nth_list_update)

lemma np_fmin_nth: "x < length curve \<Longrightarrow> np_fmin s curve ! x = min (curve ! x) s"
  by (simp add: np_fmin_def min.commute)

lemma aggregate_same_length:
  assumes "4 < length output" and "\<forall>k<5. length (output ! k) = n"
  shows "\<exists>agg. aggregate output = Inr agg \<and> length agg = n
           \<and> (\<forall>x<n. agg ! x = max (output ! 0 ! x) (max (output ! 1 ! x) (max (output ! 2 ! x)
                                 (max (output ! 3 ! x) (output ! 4 ! x)))))"
proof -
  have l: "length (output ! 0) = n" "length (output ! 1) = n" "length (output ! 2) = n"
          "length (output ! 3) = n" "length (output ! 4) = n"
    using assms(2) by simp_all
  have r: "0 < length output" "1 < length output" "2 < length output" "3 < length output"
    using assms(1) by auto
  show ?thesis
    using assms(1) r l by (simp add: aggregate_def idx_def np_fmax_def)
qed

text \<open>
  Claim C7, as amended. When \<open>rule_base\<close> returns, each of the five curves it returns is the
  curve it was given in that slot, clipped point by point: \<open>clipped[x] = min (curve[x])
  (strength[T])\<close>. The clipped curves are stored into the slots of the list \<open>b[2]\<close> that the
  caller passed in, in place of the curves that were there, and that same list is the return
  value; the curves of the two input variables, \<open>b[0]\<close> and \<open>b[1]\<close>, and any slot of
  \<open>b[2]\<close> past the fifth are left as they were. When the five curves have one length, the
  fused set is computed without error and is the point-wise maximum of the five clipped curves.
\<close>

theorem rule_base_overwrites_output_slots:
  assumes "rule_base b f_mat = Inr (b', output)"
  shows "length b' = length b
       \<and> (\<forall>i. i \<noteq> 2 \<longrightarrow> b' ! i = b ! i)
       \<and> b' ! 2 = output
       \<and> length output = length (b ! 2)
       \<and> (\<forall>T. \<exists>s. strength f_mat T = Inr s
                \<and> output ! term_index T = np_fmin s (b ! 2 ! term_index T)
                \<and> (\<forall>x < length (b ! 2 ! term_index T).
                      output ! term_index T ! x = min (b ! 2 ! term_index T ! x) s))
       \<and> (\<forall>k. 5 \<le> k \<longrightarrow> output ! k = b ! 2 ! k)
       \<and> (\<forall>n. (\<forall>k<5. length (b ! 2 ! k) = n) \<longrightarrow>
            (\<exists>agg. aggregate output = Inr agg \<and> length agg = n
               \<and> (\<forall>x<n. agg ! x = max (output ! 0 ! x) (max (output ! 1 ! x)
                    (max (output ! 2 ! x) (max (output ! 3 ! x) (output ! 4 ! x)))))))"
proof -
  obtain s0 s1 s2 s3 s4 where
    st: "strength f_mat NM = Inr s0" "strength f_mat NS = Inr s1" "strength f_mat Z = Inr s2"
        "strength f_mat PS = Inr s3" "strength f_mat PM = Inr s4"
    and lb: "2 < length b" and l2: "4 < length (b ! 2)"
    and out: "output = (b ! 2)[0 := np_fmin s0 (b ! 2 ! 0), 1 := np_fmin s1 (b ! 2 ! 1),
                               2 := np_fmin s2 (b ! 2 ! 2), 3 := np_fmin s3 (b ! 2 ! 3),
                               4 := np_fmin s4 (b ! 2 ! 4)]"
    and b': "b' = b[2 := output]"
    using rule_base_Inr [OF assms] by blast
  have a1: "length b' = length b" using b' by simp
  have a2: "\<forall>i. i \<noteq> 2 \<longrightarrow> b' ! i = b ! i" using b' by simp
  have a3: "b' ! 2 = output" using b' lb by simp
  have a4: "length output = length (b ! 2)" using out by simp
  have slots: "output ! 0 = np_fmin s0 (b ! 2 ! 0)" "output ! 1 = np_fmin s1 (b ! 2 ! 1)"
     "output ! 2 = np_fmin s2 (b ! 2 ! 2)" "output ! 3 = np_fmin s3 (b ! 2 ! 3)"
     "output ! 4 = np_fmin s4 (b ! 2 ! 4)"
  proof -
    have r: "0 < length (b ! 2)" "1 < length (b ! 2)" "2 < length (b ! 2)" "3 < length (b ! 2)"
      using l2 by auto
    show "output ! 0 = np_fmin s0 (b ! 2 ! 0)" "output ! 1 = np_fmin s1 (b ! 2 ! 1)"
     "output ! 2 = np_fmin s2 (b ! 2 ! 2)" "output ! 3 = np_fmin s3 (b ! 2 ! 3)"
     "output ! 4 = np_fmin s4 (b ! 2 ! 4)"
      using out l2 r by simp_all
  qed
  have a5: "\<forall>T. \<exists>s. strength f_mat T = Inr s
                \<and> output ! term_index T = np_fmin s (b ! 2 ! term_index T)
                \<and> (\<forall>x < length (b ! 2 ! term_index T).
                      output ! term_index T ! x = min (b ! 2 ! term_index T ! x) s)"
  proof
    fix T
    show "\<exists>s. strength f_mat T = Inr s
                \<and> output ! term_index T = np_fmin s (b ! 2 ! term_index T)
                \<and> (\<forall>x < length (b ! 2 ! term_index T).
                      output ! term_index T ! x = min (b ! 2 ! term_index T ! x) s)"
      using st slots by (cases T) (simp_all add: np_fmin_nth)
  qed
  have a6: "\<forall>k. 5 \<le> k \<longrightarrow> output ! k = b ! 2 ! k"
    using out by simp
  have a7: "\<forall>n. (\<forall>k<5. length (b ! 2 ! k) = n) \<longrightarrow>
            (\<exists>agg. aggregate output = Inr agg \<and> length agg = n
               \<and> (\<forall>x<n. agg ! x = max (output ! 0 ! x) (max (output ! 1 ! x)
                    (max (output ! 2 ! x) (max (output ! 3 ! x) (output ! 4 ! x))))))"
  proof (intro allI impI)
    fix n assume n: "\<forall>k<5. length (b ! 2 ! k) = n"
    have lk: "\<forall>k<5. length (output ! k) = n"
    proof (intro allI impI)
      fix k :: nat assume "k < 5"
      then consider "k = 0" | "k = 1" | "k = 2" | "k = 3" | "k = 4" by linarith
      then show "length (output ! k) = n"
        using slots n by cases (simp_all add: np_fmin_def)
    qed
    have "4 < length output" using a4 l2 by simp
    then show "\<exists>agg. aggregate output = Inr agg \<and> length agg = n
               \<and> (\<forall>x<n. agg ! x = max (output ! 0 ! x) (max (output ! 1 ! x)
                    (max (output ! 2 ! x) (max (output ! 3 ! x) (output ! 4 ! x)))))"
      using lk by (rule aggregate_same_length)
  qed
  show ?thesis using a1 a2 a3 a4 a5 a6 a7 by blast
qed

lemma quarter_matrix:
  "replicate 5 (replicate 5 (1/4 :: real))
   = [[1/4, 1/4, 1/4, 1/4, 1/4], [1/4, 1/4, 1/4, 1/4, 1/4], [1/4, 1/4, 1/4, 1/4, 1/4],
      [1/4, 1/4, 1/4, 1/4, 1/4], [1/4, 1/4, 1/4, 1/4, 1/4]]"
  by (simp add: numeral_eq_Suc)

theorem rule_base_overwrites_output_slots_witness:
  "rule_base [[], [], [[0, 1], [1, 0], [1, 1], [0, 0], [1/8, 1]]] (replicate 5 (replicate 5 (1/4)))
     = Inr ([[], [], [[0, 1/4], [1/4, 0], [1/4, 1/4], [0, 0], [1/8, 1/4]]],
            [[0, 1/4], [1/4, 0], [1/4, 1/4], [0, 0], [1/8, 1/4]])
   \<and> aggregate [[0, 1/4], [1/4, 0], [1/4, 1/4], [0, 0], [1/8, 1/4]] = Inr [1/4, 1/4]"
proof -
  have r: "rule_base [[], [], [[0, 1], [1, 0], [1, 1], [0, 0], [1/8, 1]]]
             (replicate 5 (replicate 5 (1/4)))
     = Inr ([[], [], [[0, 1/4], [1/4, 0], [1/4, 1/4], [0, 0], [1/8, 1/4]]],
            [[0, 1/4], [1/4, 0], [1/4, 1/4], [0, 0], [1/8, 1/4]])"
    unfolding quarter_matrix
    by (simp add: rule_base_def clip_def strength_def cell_def idx_def np_fmin_def)
  have k: "\<forall>k<5. length ([[], [], [[0, 1], [1, 0], [1, 1], [0, 0], [1/8, 1::real]]] ! 2 ! k) = 2"
  proof (intro allI impI)
    fix k :: nat assume "k < 5"
    then consider "k = 0" | "k = 1" | "k = 2" | "k = 3" | "k = 4" by linarith
    then show "length ([[], [], [[0, 1], [1, 0], [1, 1], [0, 0], [1/8, 1::real]]] ! 2 ! k) = 2"
      by cases simp_all
  qed
  have "\<exists>agg. aggregate [[0, 1/4], [1/4, 0], [1/4, 1/4], [0, 0], [1/8, 1/4]] = Inr agg
          \<and> length agg = 2"
    using rule_base_overwrites_output_slots [OF r] k by blast
  then have "aggregate [[0, 1/4], [1/4, 0], [1/4, 1/4], [0, 0], [1/8, 1/4]] = Inr [1/4, 1/4]"
    by (simp add: aggregate_def idx_def np_fmax_def)
  then show ?thesis using r by simp
qed

text \<open>
  The curves of the output variable do not survive the call: with every rule strength
  \<open>1/2\<close>, the caller's \<open>b[2]\<close> holds the peak \<open>1/2\<close> afterwards where it held \<open>1\<close>.
\<close>

lemma half_matrix:
  "replicate 5 (replicate 5 (1/2 :: real))
   = [[1/2, 1/2, 1/2, 1/2, 1/2], [1/2, 1/2, 1/2, 1/2, 1/2], [1/2, 1/2, 1/2, 1/2, 1/2],
      [1/2, 1/2, 1/2, 1/2, 1/2], [1/2, 1/2, 1/2, 1/2, 1/2]]"
  by (simp add: numeral_eq_Suc)

theorem rule_base_changes_callers_curves:
  "rule_base [[], [], [[0, 1, 0], [0, 1, 0], [0, 1, 0], [0, 1, 0], [0, 1, 0]]]
             (replicate 5 (replicate 5 (1/2)))
   = Inr ([[], [], [[0, 1/2, 0], [0, 1/2, 0], [0, 1/2, 0], [0, 1/2, 0], [0, 1/2, 0]]],
          [[0, 1/2, 0], [0, 1/2, 0], [0, 1/2, 0], [0, 1/2, 0], [0, 1/2, 0]])"
  unfolding half_matrix
  by (simp add: rule_base_def clip_def strength_def cell_def idx_def np_fmin_def)

subsection \<open>Membership functions are evaluated eagerly, mostly on defaults\<close>

lemma lookup_eq_Inr:
  "(case m of None \<Rightarrow> Inl KeyError | Some y \<Rightarrow> Inr y) = Inr y \<longleftrightarrow> m = Some y"
  by (cases m) auto

lemma membership_f3_Inr:
  "membership_f3 fam mf x abc = Inr y \<longleftrightarrow>
     (\<exists>v1 v2 v3 v4 v5 v6 v7 v8 v9 v10 v11 v12.
        trimf fam x abc = Inr v1 \<and> dsigmf fam x 1 2 3 4 = Inr v2 \<and> gauss2mf fam x 1 2 3 4 = Inr v3
      \<and> gaussmf fam x 1 2 = Inr v4 \<and> gbellmf fam x 1 2 3 = Inr v5 \<and> piecemf fam x abc = Inr v6
      \<and> pimf fam x 1 2 3 4 = Inr v7 \<and> psigmf fam x 1 2 3 4 = Inr v8 \<and> sigmf fam x 1 2 = Inr v9
      \<and> smf fam x 1 2 = Inr v10 \<and> trapmf fam x [0, 0, 0, 0] = Inr v11 \<and> zmf fam x 1 2 = Inr v12
      \<and> map_of [(''trimf'', v1), (''dsigmf'', v2), (''gauss2mf'', v3), (''gaussmf'', v4),
                 (''gbellmf'', v5), (''piecemf'', v6), (''pimf'', v7), (''psigmf'', v8),
                 (''sigmf'', v9), (''smf'', v10), (''trapmf'', v11), (''zmf'', v12)] mf = Some y)"
  unfolding membership_f3_def membership_f_def bind_eq_Inr lookup_eq_Inr
  by blast

lemma lookup_family:
  fixes v1 :: "real list"
  assumes "map_of [(''trimf'', v1), (''dsigmf'', v2), (''gauss2mf'', v3), (''gaussmf'', v4),
                 (''gbellmf'', v5), (''piecemf'', v6), (''pimf'', v7), (''psigmf'', v8),
                 (''sigmf'', v9), (''smf'', v10), (''trapmf'', v11), (''zmf'', v12)] mf = Some y"
  shows "mf = ''trimf'' \<Longrightarrow> y = v1" "mf = ''dsigmf'' \<Longrightarrow> y = v2" "mf = ''gauss2mf'' \<Longrightarrow> y = v3"
    "mf = ''gaussmf'' \<Longrightarrow> y = v4" "mf = ''gbellmf'' \<Longrightarrow> y = v5" "mf = ''piecemf'' \<Longrightarrow> y = v6"
    "mf = ''pimf'' \<Longrightarrow> y = v7" "mf = ''psigmf'' \<Longrightarrow> y = v8" "mf = ''sigmf'' \<Longrightarrow> y = v9"
    "mf = ''smf'' \<Longrightarrow> y = v10" "mf = ''trapmf'' \<Longrightarrow> y = v11" "mf = ''zmf'' \<Longrightarrow> y = v12"
    "mf \<in> {''trimf'', ''dsigmf'', ''gauss2mf'', ''gaussmf'', ''gbellmf'', ''piecemf'',
            ''pimf'', ''psigmf'', ''sigmf'', ''smf'', ''trapmf'', ''zmf''}"
proof -
  show "mf = ''trimf'' \<Longrightarrow> y = v1" using assms by simp
  show "mf = ''dsigmf'' \<Longrightarrow> y = v2" using assms by simp
  show "mf = ''gauss2mf'' \<Longrightarrow> y = v3" using assms by simp
  show "mf = ''gaussmf'' \<Longrightarrow> y = v4" using assms by simp
  show "mf = ''gbellmf'' \<Longrightarrow> y = v5" using assms by simp
  show "mf = ''piecemf'' \<Longrightarrow> y = v6" using assms by simp
  show "mf = ''pimf'' \<Longrightarrow> y = v7" using assms by simp
  show "mf = ''psigmf'' \<Longrightarrow> y = v8" using assms by simp
  show "mf = ''sigmf'' \<Longrightarrow> y = v9" using assms by simp
  show "mf = ''smf'' \<Longrightarrow> y = v10" using assms by simp
  show "mf = ''trapmf'' \<Longrightarrow> y = v11" using assms by simp
  show "mf = ''zmf'' \<Longrightarrow> y = v12" using assms by simp
  have "mf \<in> fst ` set [(''trimf'', v1), (''dsigmf'', v2), (''gauss2mf'', v3), (''gaussmf'', v4),
                 (''gbellmf'', v5), (''piecemf'', v6), (''pimf'', v7), (''psigmf'', v8),
                 (''sigmf'', v9), (''smf'', v10), (''trapmf'', v11), (''zmf'', v12)]"
    using map_of_SomeD [OF assms] by (rule image_eqI [rotated]) simp
  then show "mf \<in> {''trimf'', ''dsigmf'', ''gauss2mf'', ''gaussmf'', ''gbellmf'', ''piecemf'',
            ''pimf'', ''psigmf'', ''sigmf'', ''smf'', ''trapmf'', ''zmf''}"
    by simp
qed

lemma lookup_ignores_abc:
  fixes v1 :: "real list"
  assumes "mf \<noteq> ''trimf''" and "mf \<noteq> ''piecemf''"
  shows "map_of [(''trimf'', v1), (''dsigmf'', v2), (''gauss2mf'', v3), (''gaussmf'', v4),
                 (''gbellmf'', v5), (''piecemf'', v6), (''pimf'', v7), (''psigmf'', v8),
                 (''sigmf'', v9), (''smf'', v10), (''trapmf'', v11), (''zmf'', v12)] mf
       = map_of [(''trimf'', w1), (''dsigmf'', v2), (''gauss2mf'', v3), (''gaussmf'', v4),
                 (''gbellmf'', v5), (''piecemf'', w6), (''pimf'', v7), (''psigmf'', v8),
                 (''sigmf'', v9), (''smf'', v10), (''trapmf'', v11), (''zmf'', v12)] mf"
  using assms by simp

lemma selected_family:
  "r = Inr v \<Longrightarrow> (P \<Longrightarrow> y = v) \<Longrightarrow> P \<longrightarrow> r = (Inr y :: exn + real list)"
  by auto

text \<open>
  Claim C9. Whenever the three-argument call of \<open>membership_f\<close> returns a curve, all twelve
  library functions have been called and have returned: the triangular and the
  piecewise-linear one on the configured parameters \<open>abc\<close>, the other ten on the defaults
  \<open>a = 1, b = 2, c = 3, d = 4, abcd = [0,0,0,0]\<close>. The curve returned is the one of the
  requested family, which is one of the twelve names; for a family other than \<open>trimf\<close> and
  \<open>piecemf\<close> it is computed from the defaults and is the same whatever parameters were
  configured.
\<close>

theorem membership_f_uses_defaults:
  assumes "membership_f3 fam mf x abc = Inr y"
  shows "(\<exists>v. trimf fam x abc = Inr v) \<and> (\<exists>v. dsigmf fam x 1 2 3 4 = Inr v)
       \<and> (\<exists>v. gauss2mf fam x 1 2 3 4 = Inr v) \<and> (\<exists>v. gaussmf fam x 1 2 = Inr v)
       \<and> (\<exists>v. gbellmf fam x 1 2 3 = Inr v) \<and> (\<exists>v. piecemf fam x abc = Inr v)
       \<and> (\<exists>v. pimf fam x 1 2 3 4 = Inr v) \<and> (\<exists>v. psigmf fam x 1 2 3 4 = Inr v)
       \<and> (\<exists>v. sigmf fam x 1 2 = Inr v) \<and> (\<exists>v. smf fam x 1 2 = Inr v)
       \<and> (\<exists>v. trapmf fam x [0, 0, 0, 0] = Inr v) \<and> (\<exists>v. zmf fam x 1 2 = Inr v)
       \<and> (mf = ''trimf'' \<longrightarrow> trimf fam x abc = Inr y)
       \<and> (mf = ''piecemf'' \<longrightarrow> piecemf fam x abc = Inr y)
       \<and> (mf = ''dsigmf'' \<longrightarrow> dsigmf fam x 1 2 3 4 = Inr y)
       \<and> (mf = ''gauss2mf'' \<longrightarrow> gauss2mf fam x 1 2 3 4 = Inr y)
       \<and> (mf = ''gaussmf'' \<longrightarrow> gaussmf fam x 1 2 = Inr y)
       \<and> (mf = ''gbellmf'' \<longrightarrow> gbellmf fam x 1 2 3 = Inr y)
       \<and> (mf = ''pimf'' \<longrightarrow> pimf fam x 1 2 3 4 = Inr y)
       \<and> (mf = ''psigmf'' \<longrightarrow> psigmf fam x 1 2 3 4 = Inr y)
       \<and> (mf = ''sigmf'' \<longrightarrow> sigmf fam x 1 2 = Inr y)
       \<and> (mf = ''smf'' \<longrightarrow> smf fam x 1 2 = Inr y)
       \<and> (mf = ''trapmf'' \<longrightarrow> trapmf fam x [0, 0, 0, 0] = Inr y)
       \<and> (mf = ''zmf'' \<longrightarrow> zmf fam x 1 2 = Inr y)
       \<and> mf \<in> {''trimf'', ''dsigmf'', ''gauss2mf'', ''gaussmf'', ''gbellmf'', ''piecemf'',
                 ''pimf'', ''psigmf'', ''sigmf'', ''smf'', ''trapmf'', ''zmf''}
       \<and> (\<forall>abc' y'. mf \<noteq> ''trimf'' \<and> mf \<noteq> ''piecemf'' \<and> membership_f3 fam mf x abc' = Inr y'
              \<longrightarrow> y' = y)"
proof -
  obtain v1 v2 v3 v4 v5 v6 v7 v8 v9 v10 v11 v12 where
    c: "trimf fam x abc = Inr v1" "dsigmf fam x 1 2 3 4 = Inr v2" "gauss2mf fam x 1 2 3 4 = Inr v3"
       "gaussmf fam x 1 2 = Inr v4" "gbellmf fam x 1 2 3 = Inr v5" "piecemf fam x abc = Inr v6"
       "pimf fam x 1 2 3 4 = Inr v7" "psigmf fam x 1 2 3 4 = Inr v8" "sigmf fam x 1 2 = Inr v9"
       "smf fam x 1 2 = Inr v10" "trapmf fam x [0, 0, 0, 0] = Inr v11" "zmf fam x 1 2 = Inr v12"
    and m: "map_of [(''trimf'', v1), (''dsigmf'', v2), (''gauss2mf'', v3), (''gaussmf'', v4),
                 (''gbellmf'', v5), (''piecemf'', v6), (''pimf'', v7), (''psigmf'', v8),
                 (''sigmf'', v9), (''smf'', v10), (''trapmf'', v11), (''zmf'', v12)] mf = Some y"
    using assms unfolding membership_f3_Inr by blast
  note fam = lookup_family [OF m]
  have indep: "\<forall>abc' y'. mf \<noteq> ''trimf'' \<and> mf \<noteq> ''piecemf'' \<and> membership_f3 fam mf x abc' = Inr y'
              \<longrightarrow> y' = y"
  proof (intro allI impI)
    fix abc' y'
    assume a: "mf \<noteq> ''trimf'' \<and> mf \<noteq> ''piecemf'' \<and> membership_f3 fam mf x abc' = Inr y'"
    then have n1: "mf \<noteq> ''trimf''" and n2: "mf \<noteq> ''piecemf''" by simp_all
    obtain w1 w6 where
      w: "map_of [(''trimf'', w1), (''dsigmf'', v2), (''gauss2mf'', v3), (''gaussmf'', v4),
                 (''gbellmf'', v5), (''piecemf'', w6), (''pimf'', v7), (''psigmf'', v8),
                 (''sigmf'', v9), (''smf'', v10), (''trapmf'', v11), (''zmf'', v12)] mf = Some y'"
      using a unfolding membership_f3_Inr c by blast
    have "Some y = Some y'"
      unfolding m [symmetric] w [symmetric] by (rule lookup_ignores_abc [OF n1 n2])
    then show "y' = y" by simp
  qed
  have e: "\<exists>v. trimf fam x abc = Inr v" "\<exists>v. dsigmf fam x 1 2 3 4 = Inr v"
    "\<exists>v. gauss2mf fam x 1 2 3 4 = Inr v" "\<exists>v. gaussmf fam x 1 2 = Inr v"
    "\<exists>v. gbellmf fam x 1 2 3 = Inr v" "\<exists>v. piecemf fam x abc = Inr v"
    "\<exists>v. pimf fam x 1 2 3 4 = Inr v" "\<exists>v. psigmf fam x 1 2 3 4 = Inr v"
    "\<exists>v. sigmf fam x 1 2 = Inr v" "\<exists>v. smf fam x 1 2 = Inr v"
    "\<exists>v. trapmf fam x [0, 0, 0, 0] = Inr v" "\<exists>v. zmf fam x 1 2 = Inr v"
    using c by blast+
  have i1: "mf = ''trimf'' \<longrightarrow> trimf fam x abc = Inr y"
    using c(1) fam(1) by (rule selected_family)
  have i2: "mf = ''piecemf'' \<longrightarrow> piecemf fam x abc = Inr y"
    using c(6) fam(6) by (rule selected_family)
  have i3: "mf = ''dsigmf'' \<longrightarrow> dsigmf fam x 1 2 3 4 = Inr y"
    using c(2) fam(2) by (rule selected_family)
  have i4: "mf = ''gauss2mf'' \<longrightarrow> gauss2mf fam x 1 2 3 4 = Inr y"
    using c(3) fam(3) by (rule selected_family)
  have i5: "mf = ''gaussmf'' \<longrightarrow> gaussmf fam x 1 2 = Inr y"
    using c(4) fam(4) by (rule selected_family)
  have i6: "mf = ''gbellmf'' \<longrightarrow> gbellmf fam x 1 2 3 = Inr y"
    using c(5) fam(5) by (rule selected_family)
  have i7: "mf = ''pimf'' \<longrightarrow> pimf fam x 1 2 3 4 = Inr y"
    using c(7) fam(7) by (rule selected_family)
  have i8: "mf = ''psigmf'' \<longrightarrow> psigmf fam x 1 2 3 4 = Inr y"
    using c(8) fam(8) by (rule selected_family)
  have i9: "mf = ''sigmf'' \<longrightarrow> sigmf fam x 1 2 = Inr y"
    using c(9) fam(9) by (rule selected_family)
  have i10: "mf = ''smf'' \<longrightarrow> smf fam x 1 2 = Inr y"
    using c(10) fam(10) by (rule selected_family)
  have i11: "mf = ''trapmf'' \<longrightarrow> trapmf fam x [0, 0, 0, 0] = Inr y"
    using c(11) fam(11) by (rule selected_family)
  have i12: "mf = ''zmf'' \<longrightarrow> zmf fam x 1 2 = Inr y"
    using c(12) fam(12) by (rule selected_family)
  show ?thesis
    apply (insert e i1 i2 i3 i4 i5 i6 i7 i8 i9 i10 i11 i12 fam(13) indep)
    apply (intro conjI)
    apply assumption+
    done
qed

theorem membership_f_uses_defaults_witness:
  "membership_f3 example_families ''gaussmf'' [0, 1] [0, 1, 2] = Inr [0, 0]
   \<and> gaussmf example_families [0, 1] 1 2 = Inr [0, 0]
   \<and> ''gaussmf'' \<in> {''trimf'', ''dsigmf'', ''gauss2mf'', ''gaussmf'', ''gbellmf'', ''piecemf'',
                 ''pimf'', ''psigmf'', ''sigmf'', ''smf'', ''trapmf'', ''zmf''}"
proof -
  have r: "membership_f3 example_families ''gaussmf'' [0, 1] [0, 1, 2] = Inr [0, 0]"
    by (simp add: membership_f3_def membership_f_def example_families_def triangle_mf_def
          zero_curve_def)
  note t = membership_f_uses_defaults [OF r]
  from t have g: "''gaussmf'' = ''gaussmf'' \<longrightarrow> gaussmf example_families [0, 1] 1 2 = Inr [0, 0]"
    by (elim conjE)
  from t have m: "''gaussmf'' \<in> {''trimf'', ''dsigmf'', ''gauss2mf'', ''gaussmf'', ''gbellmf'', ''piecemf'',
                 ''pimf'', ''psigmf'', ''sigmf'', ''smf'', ''trapmf'', ''zmf''}"
    by (elim conjE)
  from g have "gaussmf example_families [0, 1] 1 2 = Inr [0, 0]" by simp
  then show ?thesis using r m by (intro conjI)
qed

subsection \<open>No validation of shape parameters\<close>

lemma bind_eq_Inl: "bind m f = Inl e \<longleftrightarrow> m = Inl e \<or> (\<exists>x. m = Inr x \<and> f x = Inl e)"
  by (cases m) simp_all

lemma lookup_eq_Inl:
  "(case m of None \<Rightarrow> Inl KeyError | Some y \<Rightarrow> Inr y) = Inl e \<longleftrightarrow> m = None \<and> e = KeyError"
  by (cases m) auto

lemma lookup_None_names:
  fixes v1 :: "real list"
  assumes "map_of [(''trimf'', v1), (''dsigmf'', v2), (''gauss2mf'', v3), (''gaussmf'', v4),
                 (''gbellmf'', v5), (''piecemf'', v6), (''pimf'', v7), (''psigmf'', v8),
                 (''sigmf'', v9), (''smf'', v10), (''trapmf'', v11), (''zmf'', v12)] mf = None"
  shows "mf \<notin> {''trimf'', ''dsigmf'', ''gauss2mf'', ''gaussmf'', ''gbellmf'', ''piecemf'',
            ''pimf'', ''psigmf'', ''sigmf'', ''smf'', ''trapmf'', ''zmf''}"
proof -
  have "mf \<notin> fst ` set [(''trimf'', v1), (''dsigmf'', v2), (''gauss2mf'', v3), (''gaussmf'', v4),
                 (''gbellmf'', v5), (''piecemf'', v6), (''pimf'', v7), (''psigmf'', v8),
                 (''sigmf'', v9), (''smf'', v10), (''trapmf'', v11), (''zmf'', v12)]"
    using assms unfolding map_of_eq_None_iff .
  then show ?thesis by simp
qed

lemma membership_f3_Inl_lookup:
  assumes "membership_f3 fam mf x abc = Inl e"
  shows "(e = KeyError \<and> (\<exists>v1 v2 v3 v4 v5 v6 v7 v8 v9 v10 v11 v12.
            map_of [(''trimf'', v1), (''dsigmf'', v2), (''gauss2mf'', v3), (''gaussmf'', v4),
                 (''gbellmf'', v5), (''piecemf'', v6), (''pimf'', v7), (''psigmf'', v8),
                 (''sigmf'', v9), (''smf'', v10), (''trapmf'', v11), (''zmf'', v12 :: real list)] mf = None))
       \<or> trimf fam x abc = Inl e \<or> dsigmf fam x 1 2 3 4 = Inl e \<or> gauss2mf fam x 1 2 3 4 = Inl e
       \<or> gaussmf fam x 1 2 = Inl e \<or> gbellmf fam x 1 2 3 = Inl e \<or> piecemf fam x abc = Inl e
       \<or> pimf fam x 1 2 3 4 = Inl e \<or> psigmf fam x 1 2 3 4 = Inl e \<or> sigmf fam x 1 2 = Inl e
       \<or> smf fam x 1 2 = Inl e \<or> trapmf fam x [0, 0, 0, 0] = Inl e \<or> zmf fam x 1 2 = Inl e"
  using assms
  unfolding membership_f3_def membership_f_def bind_eq_Inl lookup_eq_Inl
  by blast

lemma unknown_or_library:
  assumes "(k \<and> (\<exists>v1 v2 v3 v4 v5 v6 v7 v8 v9 v10 v11 v12. L v1 v2 v3 v4 v5 v6 v7 v8 v9 v10 v11 v12)) \<or> R"
    and "\<And>v1 v2 v3 v4 v5 v6 v7 v8 v9 v10 v11 v12. L v1 v2 v3 v4 v5 v6 v7 v8 v9 v10 v11 v12 \<Longrightarrow> N"
  shows "(k \<and> N) \<or> R"
  using assms by blast

lemma membership_f3_Inl:
  assumes "membership_f3 fam mf x abc = Inl e"
  shows "(e = KeyError
          \<and> mf \<notin> {''trimf'', ''dsigmf'', ''gauss2mf'', ''gaussmf'', ''gbellmf'', ''piecemf'',
                   ''pimf'', ''psigmf'', ''sigmf'', ''smf'', ''trapmf'', ''zmf''})
       \<or> trimf fam x abc = Inl e \<or> dsigmf fam x 1 2 3 4 = Inl e \<or> gauss2mf fam x 1 2 3 4 = Inl e
       \<or> gaussmf fam x 1 2 = Inl e \<or> gbellmf fam x 1 2 3 = Inl e \<or> piecemf fam x abc = Inl e
       \<or> pimf fam x 1 2 3 4 = Inl e \<or> psigmf fam x 1 2 3 4 = Inl e \<or> sigmf fam x 1 2 = Inl e
       \<or> smf fam x 1 2 = Inl e \<or> trapmf fam x [0, 0, 0, 0] = Inl e \<or> zmf fam x 1 2 = Inl e"
  by (rule unknown_or_library [OF membership_f3_Inl_lookup [OF assms]]) (rule lookup_None_names)

text \<open>
  Claim C5, as amended. Construction checks nothing: for every list of family names and every
  list of shape parameters, \<open>Fuzzy.__init__\<close> succeeds and stores both as given, with both
  inputs zero and no ranges. Nor does \<open>membership_f\<close> check an arity of its own: when its
  call fails, either the error is \<open>KeyError\<close> and the requested name is none of the twelve
  family names, or it is the error that one of the twelve library calls raised.
\<close>

theorem construction_accepts_any_parameters:
  "Fuzzy_init mfs ssets
     = Inr \<lparr>error = 0, delta_e = 0, mf_types = mfs, f_ssets = ssets, io_ranges = []\<rparr>
   \<and> (\<forall>fam mf x abc e. membership_f3 fam mf x abc = Inl e \<longrightarrow>
          (e = KeyError
           \<and> mf \<notin> {''trimf'', ''dsigmf'', ''gauss2mf'', ''gaussmf'', ''gbellmf'', ''piecemf'',
                    ''pimf'', ''psigmf'', ''sigmf'', ''smf'', ''trapmf'', ''zmf''})
        \<or> trimf fam x abc = Inl e \<or> dsigmf fam x 1 2 3 4 = Inl e \<or> gauss2mf fam x 1 2 3 4 = Inl e
        \<or> gaussmf fam x 1 2 = Inl e \<or> gbellmf fam x 1 2 3 = Inl e \<or> piecemf fam x abc = Inl e
        \<or> pimf fam x 1 2 3 4 = Inl e \<or> psigmf fam x 1 2 3 4 = Inl e \<or> sigmf fam x 1 2 = Inl e
        \<or> smf fam x 1 2 = Inl e \<or> trapmf fam x [0, 0, 0, 0] = Inl e \<or> zmf fam x 1 2 = Inl e)"
proof
  show "Fuzzy_init mfs ssets
     = Inr \<lparr>error = 0, delta_e = 0, mf_types = mfs, f_ssets = ssets, io_ranges = []\<rparr>"
    by (simp add: Fuzzy_init_def)
  show "\<forall>fam mf x abc e. membership_f3 fam mf x abc = Inl e \<longrightarrow>
          (e = KeyError
           \<and> mf \<notin> {''trimf'', ''dsigmf'', ''gauss2mf'', ''gaussmf'', ''gbellmf'', ''piecemf'',
                    ''pimf'', ''psigmf'', ''sigmf'', ''smf'', ''trapmf'', ''zmf''})
        \<or> trimf fam x abc = Inl e \<or> dsigmf fam x 1 2 3 4 = Inl e \<or> gauss2mf fam x 1 2 3 4 = Inl e
        \<or> gaussmf fam x 1 2 = Inl e \<or> gbellmf fam x 1 2 3 = Inl e \<or> piecemf fam x abc = Inl e
        \<or> pimf fam x 1 2 3 4 = Inl e \<or> psigmf fam x 1 2 3 4 = Inl e \<or> sigmf fam x 1 2 = Inl e
        \<or> smf fam x 1 2 = Inl e \<or> trapmf fam x [0, 0, 0, 0] = Inl e \<or> zmf fam x 1 2 = Inl e"
    by (intro allI impI) (rule membership_f3_Inl)
qed

lemma example_rejects_two_points:
  "membership_f3 example_families ''gaussmf'' [0, 1] [0, 1] = Inl AssertionError"
  by (simp add: membership_f3_def membership_f_def example_families_def triangle_mf_def)

lemma example_unknown_family:
  "membership_f3 example_families ''cosmf'' [0, 1] [0, 1, 2] = Inl KeyError"
  by (simp add: membership_f3_def membership_f_def example_families_def triangle_mf_def)

theorem construction_accepts_any_parameters_witness:
  "membership_f3 example_families ''gaussmf'' [0, 1] [0, 1] = Inl AssertionError
   \<and> trimf example_families [0, 1] [0, 1] = Inl AssertionError
   \<and> membership_f3 example_families ''cosmf'' [0, 1] [0, 1, 2] = Inl KeyError
   \<and> ''cosmf'' \<notin> {''trimf'', ''dsigmf'', ''gauss2mf'', ''gaussmf'', ''gbellmf'', ''piecemf'',
                    ''pimf'', ''psigmf'', ''sigmf'', ''smf'', ''trapmf'', ''zmf''}
   \<and> Fuzzy_init [''gaussmf''] [[[0, 1]]]
       = Inr \<lparr>error = 0, delta_e = 0, mf_types = [''gaussmf''], f_ssets = [[[0, 1]]],
              io_ranges = []\<rparr>"
proof -
  note t = construction_accepts_any_parameters [of "[''gaussmf'']" "[[[0, 1]]]"]
  note m = t [THEN conjunct2, rule_format]
  from t have i: "Fuzzy_init [''gaussmf''] [[[0, 1]]]
       = Inr \<lparr>error = 0, delta_e = 0, mf_types = [''gaussmf''], f_ssets = [[[0, 1]]],
              io_ranges = []\<rparr>"
    by (rule conjunct1)
  have a: "trimf example_families [0, 1] [0, 1] = Inl AssertionError"
    using m [OF example_rejects_two_points] by (simp add: example_families_def)
  have k: "''cosmf'' \<notin> {''trimf'', ''dsigmf'', ''gauss2mf'', ''gaussmf'', ''gbellmf'', ''piecemf'',
                    ''pimf'', ''psigmf'', ''sigmf'', ''smf'', ''trapmf'', ''zmf''}"
    using m [OF example_unknown_family]
    by (simp add: example_families_def triangle_mf_def)
  show ?thesis
    using i a k example_rejects_two_points example_unknown_family by (intro conjI)
qed

text \<open>
  A triangular family configured with two x-values instead of three is accepted at
  construction.
\<close>

theorem construction_accepts_two_point_triangle:
  "Fuzzy_init [''trimf'', ''trimf'', ''trimf''] (replicate 3 (replicate 5 [0, 1]))
     = Inr \<lparr>error = 0, delta_e = 0, mf_types = [''trimf'', ''trimf'', ''trimf''],
            f_ssets = replicate 3 (replicate 5 [0, 1]), io_ranges = []\<rparr>
   \<and> Fuzzy_init [''trimf'', ''trimf'', ''trimf''] (replicate 3 (replicate 5 [0, 1]))
     \<noteq> Inl InvalidShapeParameters"
  by (simp add: Fuzzy_init_def)

subsection \<open>Fuzzification\<close>

lemma strict_sorted_head_le_last:
  assumes "sorted_wrt (<) (x # xs)"
  shows "x \<le> last (x # (xs :: real list))"
proof -
  have "last (x # xs) \<in> set (x # xs)" by (rule last_in_set) simp
  then consider "last (x # xs) = x" | "last (x # xs) \<in> set xs" by auto
  then show ?thesis
  proof cases
    case 1
    then show ?thesis by simp
  next
    case 2
    then have "x < last (x # xs)" using assms by simp
    then show ?thesis by simp
  qed
qed

lemma interp_pairs_left: "v \<le> x0 \<Longrightarrow> interp_pairs (x0, y0) ps v = y0"
  by (cases ps) auto

lemma interp_pairs_right:
  "sorted_wrt (<) (x0 # map fst ps) \<Longrightarrow> last (x0 # map fst ps) \<le> v
   \<Longrightarrow> interp_pairs (x0, y0) ps v = last (y0 # map snd ps)"
proof (induction ps arbitrary: x0 y0)
  case Nil
  show ?case by simp
next
  case (Cons p ps)
  obtain x1 y1 where p: "p = (x1, y1)" by (cases p)
  have s: "sorted_wrt (<) (x1 # map fst ps)" and lt: "x0 < x1"
    using Cons.prems(1) p by simp_all
  have l: "last (x1 # map fst ps) \<le> v"
    using Cons.prems(2) p by simp
  have "x1 \<le> last (x1 # map fst ps)"
    using s by (rule strict_sorted_head_le_last)
  then have "x1 \<le> v" using l by simp
  then have "\<not> v \<le> x0" "\<not> v < x1" using lt by simp_all
  then show ?case
    using Cons.IH [OF s l, of y1] p by simp
qed

lemma interp_membership_spec_Inr:
  assumes "Input \<noteq> []" and "length curve = length Input"
  shows "\<exists>deg. interp_membership_spec Input curve v = Inr deg
           \<and> (v \<le> hd Input \<longrightarrow> deg = hd curve)
           \<and> (sorted_wrt (<) Input \<and> last Input \<le> v \<longrightarrow> deg = last curve)"
proof -
  obtain x0 xs where i: "Input = x0 # xs" using assms(1) by (cases Input) auto
  obtain y0 ys where c: "curve = y0 # ys" and ly: "length ys = length xs"
    using assms(2) i by (cases curve) auto
  have r: "interp_membership_spec Input curve v = Inr (interp_pairs (x0, y0) (zip xs ys) v)"
    using ly by (simp add: interp_membership_spec_def i c)
  have a: "v \<le> hd Input \<longrightarrow> interp_pairs (x0, y0) (zip xs ys) v = hd curve"
    by (simp add: i c interp_pairs_left)
  have b: "sorted_wrt (<) Input \<and> last Input \<le> v
           \<longrightarrow> interp_pairs (x0, y0) (zip xs ys) v = last curve"
  proof
    assume h: "sorted_wrt (<) Input \<and> last Input \<le> v"
    have f: "map fst (zip xs ys) = xs" and sn: "map snd (zip xs ys) = ys"
      using ly by simp_all
    have "interp_pairs (x0, y0) (zip xs ys) v = last (y0 # map snd (zip xs ys))"
      by (rule interp_pairs_right) (use h i f in simp_all)
    then show "interp_pairs (x0, y0) (zip xs ys) v = last curve"
      using sn c by simp
  qed
  show ?thesis using r a b by blast
qed

lemma strict_sorted_Min_Max:
  assumes "sorted_wrt (<) (xs :: real list)" and "xs \<noteq> []"
  shows "Min (set xs) = hd xs" and "Max (set xs) = last xs"
proof -
  have s: "sorted xs" using assms(1) by (rule strict_sorted_imp_sorted)
  show "Min (set xs) = hd xs"
    using s assms(2) by (cases xs) (auto intro!: Min_eqI)
  show "Max (set xs) = last xs"
  proof (rule Max_eqI)
    show "finite (set xs)" by simp
    show "last xs \<in> set xs" using assms(2) by (rule last_in_set)
    fix y assume "y \<in> set xs"
    then obtain i where "i < length xs" "y = xs ! i" by (auto simp: in_set_conv_nth)
    then show "y \<le> last xs"
      using s assms(2) by (simp add: last_conv_nth sorted_iff_nth_mono)
  qed
qed

lemma fuzzify_any_library:
  assumes "fuzzify interp Input y v = Inr ds"
  shows "length ds = length y \<and> (\<forall>i<length y. interp Input (y ! i) v = Inr (ds ! i))"
  using assms unfolding fuzzify_def traverse_eq_Inr
  by (simp add: list_all2_conv_all_nth)

text \<open>
  Claim C3. Over a non-empty, strictly increasing domain and five curves of the domain's
  length, \<open>fuzzify\<close> with the interpolation of the specification returns exactly five
  degrees, the \<open>i\<close>-th being the interpolation of the \<open>i\<close>-th curve; for a crisp value at or
  below the smallest sample each degree is its curve's first degree, for one at or above the
  largest sample it is its curve's last degree. Whatever the interpolation function is, a
  result of \<open>fuzzify\<close> on five curves has five degrees, one per curve in order.
\<close>

theorem fuzzify_five_degrees_clamped:
  assumes "length y = 5" and "Input \<noteq> []" and "sorted_wrt (<) Input"
    and "\<forall>curve \<in> set y. length curve = length Input"
  shows "(\<exists>ds. fuzzify interp_membership_spec Input y v = Inr ds
            \<and> length ds = 5
            \<and> (\<forall>i<5. interp_membership_spec Input (y ! i) v = Inr (ds ! i))
            \<and> (v \<le> Min (set Input) \<longrightarrow> (\<forall>i<5. ds ! i = hd (y ! i)))
            \<and> (Max (set Input) \<le> v \<longrightarrow> (\<forall>i<5. ds ! i = last (y ! i))))
       \<and> (\<forall>interp ds. fuzzify interp Input y v = Inr ds \<longrightarrow>
             length ds = 5 \<and> (\<forall>i<5. interp Input (y ! i) v = Inr (ds ! i)))"
proof -
  define deg where "deg curve = projr (interp_membership_spec Input curve v)" for curve
  have each: "interp_membership_spec Input curve v = Inr (deg curve)
              \<and> (v \<le> hd Input \<longrightarrow> deg curve = hd curve)
              \<and> (last Input \<le> v \<longrightarrow> deg curve = last curve)"
    if "curve \<in> set y" for curve
  proof -
    have "length curve = length Input" using assms(4) that by simp
    then obtain d where "interp_membership_spec Input curve v = Inr d"
      and "v \<le> hd Input \<longrightarrow> d = hd curve"
      and "sorted_wrt (<) Input \<and> last Input \<le> v \<longrightarrow> d = last curve"
      using interp_membership_spec_Inr [OF assms(2), of curve v] by blast
    then show ?thesis using assms(3) by (simp add: deg_def)
  qed
  have t: "fuzzify interp_membership_spec Input y v = Inr (map deg y)"
    unfolding fuzzify_def by (rule traverse_all_Inr) (simp add: each)
  have mm: "Min (set Input) = hd Input" "Max (set Input) = last Input"
    using strict_sorted_Min_Max [OF assms(3) assms(2)] by simp_all
  have el: "y ! i \<in> set y" if "i < 5" for i
    using that assms(1) by simp
  have "length (map deg y) = 5" using assms(1) by simp
  moreover have "\<forall>i<5. interp_membership_spec Input (y ! i) v = Inr (map deg y ! i)"
    using each el assms(1) by simp
  moreover have "v \<le> Min (set Input) \<longrightarrow> (\<forall>i<5. map deg y ! i = hd (y ! i))"
    using each el assms(1) mm by simp
  moreover have "Max (set Input) \<le> v \<longrightarrow> (\<forall>i<5. map deg y ! i = last (y ! i))"
    using each el assms(1) mm by simp
  ultimately have main: "\<exists>ds. fuzzify interp_membership_spec Input y v = Inr ds
            \<and> length ds = 5
            \<and> (\<forall>i<5. interp_membership_spec Input (y ! i) v = Inr (ds ! i))
            \<and> (v \<le> Min (set Input) \<longrightarrow> (\<forall>i<5. ds ! i = hd (y ! i)))
            \<and> (Max (set Input) \<le> v \<longrightarrow> (\<forall>i<5. ds ! i = last (y ! i)))"
    using t by blast
  have gen: "\<forall>interp ds. fuzzify interp Input y v = Inr ds \<longrightarrow>
             length ds = 5 \<and> (\<forall>i<5. interp Input (y ! i) v = Inr (ds ! i))"
  proof (intro allI impI)
    fix interp ds assume "fuzzify interp Input y v = Inr ds"
    from fuzzify_any_library [OF this]
    show "length ds = 5 \<and> (\<forall>i<5. interp Input (y ! i) v = Inr (ds ! i))"
      using assms(1) by simp
  qed
  show ?thesis using main gen by (rule conjI)
qed

theorem fuzzify_five_degrees_clamped_witness:
  "fuzzify interp_membership_spec [-1, 0, 1]
      [[1, 0, 0], [1/2, 1/2, 0], [0, 1, 0], [0, 1/2, 1/2], [0, 0, 1]] 7
     = Inr [0, 0, 0, 1/2, 1]
   \<and> fuzzify interp_membership_spec [-1, 0, 1]
      [[1, 0, 0], [1/2, 1/2, 0], [0, 1, 0], [0, 1/2, 1/2], [0, 0, 1]] (1/2)
     = Inr [0, 1/4, 1/2, 1/2, 1/2]"
proof -
  have "\<exists>ds. fuzzify interp_membership_spec [-1, 0, 1]
      [[1, 0, 0], [1/2, 1/2, 0], [0, 1, 0], [0, 1/2, 1/2], [0, 0, 1]] 7 = Inr ds \<and> length ds = 5"
    using fuzzify_five_degrees_clamped [of "[[1, 0, 0], [1/2, 1/2, 0], [0, 1, 0], [0, 1/2, 1/2], [0, 0, 1]]"
        "[-1, 0, 1]" 7]
    by auto
  then show ?thesis
    by (simp add: fuzzify_def interp_membership_spec_def)
qed

subsection \<open>Running the controller\<close>

lemma idx_Nil [simp]: "idx [] i = Inl IndexError"
  by (simp add: idx_def)

lemma idx_cases: "idx xs i = Inl IndexError \<or> idx xs i = Inr (xs ! i)"
  by (simp add: idx_def)

lemma traverse_const_Inl:
  "\<forall>x \<in> set xs. f x = Inl e \<Longrightarrow> traverse f xs = (if xs = [] then Inr [] else Inl e)"
  by (cases xs) simp_all

lemma curves_of_no_axes:
  "curves_of fam self [] i = Inl IndexError \<or> curves_of fam self [] i = Inr []"
proof -
  have body: "bind (idx (mf_types self) i) (\<lambda>mf. Inl IndexError) = (Inl IndexError :: exn + real list)"
    using idx_cases [of "mf_types self" i] by auto
  have "traverse (\<lambda>a. bind (idx (mf_types self) i)
            (\<lambda>mf. bind (idx [] i) (\<lambda>x. membership_f3 fam mf x a))) ssets
        = (if ssets = [] then Inr [] else Inl IndexError)" for ssets
    by (rule traverse_const_Inl) (simp add: body)
  then show ?thesis
    using idx_cases [of "f_ssets self" i] by (auto simp: curves_of_def)
qed

lemma infer_no_axes:
  assumes "io_ranges self = []"
  shows "infer fam interp self = Inl IndexError"
proof -
  have "bind (traverse (curves_of fam self []) [0, 1, 2]) (\<lambda>b. bind (idx [] 0) (g b))
        = Inl IndexError" for g :: "real list list list \<Rightarrow> real list \<Rightarrow> exn + 'z"
    using curves_of_no_axes [of fam self 0] curves_of_no_axes [of fam self 1]
      curves_of_no_axes [of fam self 2]
    by auto
  then show ?thesis
    by (simp add: infer_def assms)
qed

text \<open>
  Claim C10. \<open>run\<close> on an object as \<open>Fuzzy.__init__\<close> leaves it, also after the two inputs
  have been assigned, raises \<open>IndexError\<close>, whatever the family names, the shape parameters
  and the library are: the list of axes is empty, and the first read of an axis fails before
  any library function is called.
\<close>

theorem run_on_fresh_object_fails:
  "bind (Fuzzy_init mfs ssets)
     (\<lambda>self. run fam interp defuzz (self\<lparr>error := e, delta_e := de\<rparr>)) = Inl IndexError"
proof -
  let ?fresh = "\<lparr>error = 0, delta_e = 0, mf_types = mfs, f_ssets = ssets, io_ranges = []\<rparr>"
  have made: "Fuzzy_init mfs ssets = Inr ?fresh"
    by (simp add: Fuzzy_init_def)
  have "io_ranges (?fresh\<lparr>error := e, delta_e := de\<rparr>) = []"
    by simp
  then have "infer fam interp (?fresh\<lparr>error := e, delta_e := de\<rparr>) = Inl IndexError"
    by (rule infer_no_axes)
  then have "run fam interp defuzz (?fresh\<lparr>error := e, delta_e := de\<rparr>) = Inl IndexError"
    by (simp add: run_def)
  then show ?thesis
    unfolding made by simp
qed

text \<open>The three example controllers, evaluated up to the aggregated set.\<close>

lemma example_curves:
  "membership_f3 example_families ''trimf'' [-1, 0, 1] [-1, 0, 1] = Inr [0, 1, 0]"
  "membership_f3 example_families ''trimf'' [-1, 0, 1] [5, 6, 7] = Inr [0, 0, 0]"
  by (simp_all add: membership_f3_def membership_f_def example_families_def triangle_mf_def
        triangle_def zero_curve_def)

lemma three_axes:
  "traverse axis [[-1, 1], [-1, 1], [-1, 1]] = Inr [[-1, 0, 1], [-1, 0, 1], [-1, 0, 1]]"
  by (simp add: axis_def idx_def np_arange_def upto.simps)

lemma replicate_3_5: "replicate 3 (replicate 5 x) = [[x, x, x, x, x], [x, x, x, x, x], [x, x, x, x, x]]"
  by (simp add: numeral_eq_Suc)

lemma example_b:
  "traverse (curves_of example_families example_fuzzy [[-1, 0, 1], [-1, 0, 1], [-1, 0, 1]]) [0, 1, 2]
   = Inr (replicate 3 (replicate 5 [0, 1, 0]))"
  unfolding replicate_3_5 example_fuzzy_def
  by (simp add: curves_of_def idx_def example_curves replicate_3_5)

lemma offset_b:
  "traverse (curves_of example_families offset_fuzzy [[-1, 0, 1], [-1, 0, 1], [-1, 0, 1]]) [0, 1, 2]
   = Inr (replicate 3 (replicate 5 [0, 1, 0]))"
  unfolding replicate_3_5 offset_fuzzy_def example_fuzzy_def
  by (simp add: curves_of_def idx_def example_curves replicate_3_5)

lemma silent_b:
  "traverse (curves_of example_families silent_fuzzy [[-1, 0, 1], [-1, 0, 1], [-1, 0, 1]]) [0, 1, 2]
   = Inr (replicate 3 (replicate 5 [0, 0, 0]))"
  unfolding replicate_3_5 silent_fuzzy_def
  by (simp add: curves_of_def idx_def example_curves replicate_3_5)

lemma example_infer:
  "infer example_families interp_membership_spec example_fuzzy
   = Inr ([[-1, 0, 1], [-1, 0, 1], [-1, 0, 1]],
          replicate 3 (replicate 5 [0, 1, 0]),
          replicate 5 [0, 1, 0],
          [0, 1, 0])"
proof -
  have io: "io_ranges example_fuzzy = [[-1, 1], [-1, 1], [-1, 1]]"
    and e: "error example_fuzzy = 0" "delta_e example_fuzzy = 0"
    by (simp_all add: example_fuzzy_def)
  show ?thesis
    unfolding infer_def io three_axes bind_Inr example_b e
    by (simp add: replicate_3_5 idx_def fuzzify_def interp_membership_spec_def fuzzy_matrix_def
          rule_base_def clip_def strength_def cell_def np_fmin_def aggregate_def np_fmax_def
          numeral_eq_Suc)
qed

lemma offset_infer:
  "infer example_families interp_membership_spec offset_fuzzy
   = Inr ([[-1, 0, 1], [-1, 0, 1], [-1, 0, 1]],
          [replicate 5 [0, 1, 0], replicate 5 [0, 1, 0], replicate 5 [0, 1/2, 0]],
          replicate 5 [0, 1/2, 0],
          [0, 1/2, 0])"
proof -
  have io: "io_ranges offset_fuzzy = [[-1, 1], [-1, 1], [-1, 1]]"
    and e: "error offset_fuzzy = 1/2" "delta_e offset_fuzzy = - 1/2"
    by (simp_all add: offset_fuzzy_def example_fuzzy_def)
  show ?thesis
    unfolding infer_def io three_axes bind_Inr offset_b e
    by (simp add: replicate_3_5 idx_def fuzzify_def interp_membership_spec_def fuzzy_matrix_def
          rule_base_def clip_def strength_def cell_def np_fmin_def aggregate_def np_fmax_def
          numeral_eq_Suc)
qed

lemma silent_infer:
  "infer example_families interp_membership_spec silent_fuzzy
   = Inr ([[-1, 0, 1], [-1, 0, 1], [-1, 0, 1]],
          replicate 3 (replicate 5 [0, 0, 0]),
          replicate 5 [0, 0, 0],
          [0, 0, 0])"
proof -
  have io: "io_ranges silent_fuzzy = [[-1, 1], [-1, 1], [-1, 1]]"
    and e: "error silent_fuzzy = 0" "delta_e silent_fuzzy = 0"
    by (simp_all add: silent_fuzzy_def)
  show ?thesis
    unfolding infer_def io three_axes bind_Inr silent_b e
    by (simp add: replicate_3_5 idx_def fuzzify_def interp_membership_spec_def fuzzy_matrix_def
          rule_base_def clip_def strength_def cell_def np_fmin_def aggregate_def np_fmax_def
          numeral_eq_Suc)
qed

text \<open>
  Claim C6, as amended. A call of \<open>run\<close> that does not raise has computed the defuzzified
  value \<open>out_final\<close> from the aggregated set over the output axis, has printed it, has
  passed it to the visualizer together with \<open>b\<close>, the axes, the clipped curves and the
  aggregated set, and has shown the plot; the value it returns to its caller is \<open>None\<close>.
\<close>

theorem run_returns_None:
  assumes "run fam interp defuzz self = Inr r"
  shows "returned r = None
       \<and> (\<exists>inputs b output aggregated out_final.
             infer fam interp self = Inr (inputs, b, output, aggregated)
           \<and> 2 < length inputs
           \<and> defuzz (inputs ! 2) aggregated ''centroid'' = Inr out_final
           \<and> effects r = [Print_output out_final,
                           Visualize_output b inputs output out_final aggregated,
                           Plt_show])"
  using assms
  by (auto simp: run_def bind_eq_Inr idx_eq_Inr)

theorem run_returns_None_witness:
  "run example_families interp_membership_spec defuzz_spec offset_fuzzy
     = Inr \<lparr>returned = None,
            effects = [Print_output 0,
                       Visualize_output
                         [replicate 5 [0, 1, 0], replicate 5 [0, 1, 0], replicate 5 [0, 1/2, 0]]
                         [[-1, 0, 1], [-1, 0, 1], [-1, 0, 1]] (replicate 5 [0, 1/2, 0]) 0 [0, 1/2, 0],
                       Plt_show]\<rparr>
   \<and> defuzz_spec [-1, 0, 1] [0, 1/2, 0] ''centroid'' = Inr 0"
proof -
  have r: "run example_families interp_membership_spec defuzz_spec offset_fuzzy
     = Inr \<lparr>returned = None,
            effects = [Print_output 0,
                       Visualize_output
                         [replicate 5 [0, 1, 0], replicate 5 [0, 1, 0], replicate 5 [0, 1/2, 0]]
                         [[-1, 0, 1], [-1, 0, 1], [-1, 0, 1]] (replicate 5 [0, 1/2, 0]) 0 [0, 1/2, 0],
                       Plt_show]\<rparr>"
    unfolding run_def offset_infer
    by (simp add: idx_def defuzz_spec_def)
  have "defuzz_spec [-1, 0, 1] [0, 1/2, 0] ''centroid'' = Inr 0"
    using run_returns_None [OF r] unfolding offset_infer by simp
  then show ?thesis using r by simp
qed

text \<open>
  On the first example controller \<open>run\<close> prints the crisp value \<open>0\<close> and returns \<open>None\<close>.
\<close>

theorem run_example_returns_None:
  "run example_families interp_membership_spec defuzz_spec example_fuzzy
   = Inr \<lparr>returned = None,
          effects = [Print_output 0,
                     Visualize_output (replicate 3 (replicate 5 [0, 1, 0]))
                       [[-1, 0, 1], [-1, 0, 1], [-1, 0, 1]] (replicate 5 [0, 1, 0]) 0 [0, 1, 0],
                     Plt_show]\<rparr>"
  unfolding run_def example_infer
  by (simp add: idx_def defuzz_spec_def)

lemma curves_of_nonempty:
  assumes "curves_of fam self inputs i = Inr cs" and "cs \<noteq> []"
  shows "i < length inputs"
proof -
  obtain ssets where t: "traverse (\<lambda>a. bind (idx (mf_types self) i) (\<lambda>mf.
           bind (idx inputs i) (\<lambda>x. membership_f3 fam mf x a))) ssets = Inr cs"
    using assms(1) by (auto simp: curves_of_def bind_eq_Inr)
  obtain c cs' where cs: "cs = c # cs'" using assms(2) by (cases cs) auto
  obtain a as where "ssets = a # as"
    and "bind (idx (mf_types self) i) (\<lambda>mf. bind (idx inputs i) (\<lambda>x. membership_f3 fam mf x a)) = Inr c"
    using t cs unfolding traverse_eq_Inr by (auto simp: list_all2_Cons2)
  then show ?thesis
    by (auto simp: bind_eq_Inr idx_eq_Inr)
qed

lemma infer_has_output_axis:
  assumes "infer fam interp self = Inr (inputs, b, output, aggregated)"
  shows "2 < length inputs"
proof -
  obtain b0 fm where cu: "traverse (curves_of fam self inputs) [0, 1, 2] = Inr b0"
    and rb: "rule_base b0 fm = Inr (b, output)"
    using assms by (auto simp: infer_def bind_eq_Inr)
  have "4 < length (b0 ! 2)"
    using rule_base_Inr [OF rb] by blast
  then have ne: "b0 ! 2 \<noteq> []" by auto
  have "curves_of fam self inputs 2 = Inr (b0 ! 2)"
    using cu unfolding traverse_eq_Inr by (auto simp: list_all2_Cons1)
  then show ?thesis using ne by (rule curves_of_nonempty)
qed

lemma run_surfaces_defuzz_error:
  assumes "infer fam interp self = Inr (inputs, b, output, aggregated)"
    and "defuzz (inputs ! 2) aggregated ''centroid'' = Inl e"
  shows "run fam interp defuzz self = Inl e"
  using assms(2) infer_has_output_axis [OF assms(1)]
  by (simp add: run_def assms(1) idx_def)

text \<open>
  Claim C4. When \<open>run\<close> has reached the aggregated set and its degrees sum to zero,
  defuzzification as the specification describes it fails with \<open>DegenerateAggregate\<close>, and so
  does \<open>run\<close>: no value is returned, printed or plotted. \<open>run\<close> has no handler: whatever
  error the defuzzifier raises there is the error of \<open>run\<close>.
\<close>

theorem degenerate_aggregate_fails:
  assumes "infer fam interp self = Inr (inputs, b, output, aggregated)"
    and "sum_list aggregated = 0"
  shows "run fam interp defuzz_spec self = Inl DegenerateAggregate
       \<and> defuzz_spec (inputs ! 2) aggregated ''centroid'' = Inl DegenerateAggregate
       \<and> (\<forall>defuzz e. defuzz (inputs ! 2) aggregated ''centroid'' = Inl e
             \<longrightarrow> run fam interp defuzz self = Inl e)"
proof -
  have d: "defuzz_spec (inputs ! 2) aggregated ''centroid'' = Inl DegenerateAggregate"
    using assms(2) by (simp add: defuzz_spec_def)
  have s: "\<forall>defuzz e. defuzz (inputs ! 2) aggregated ''centroid'' = Inl e
             \<longrightarrow> run fam interp defuzz self = Inl e"
    using run_surfaces_defuzz_error [OF assms(1)] by blast
  show ?thesis using d s by blast
qed

theorem degenerate_aggregate_fails_witness:
  "infer example_families interp_membership_spec silent_fuzzy
     = Inr ([[-1, 0, 1], [-1, 0, 1], [-1, 0, 1]], replicate 3 (replicate 5 [0, 0, 0]),
            replicate 5 [0, 0, 0], [0, 0, 0])
   \<and> sum_list [0, 0, 0 :: real] = 0
   \<and> run example_families interp_membership_spec defuzz_spec silent_fuzzy = Inl DegenerateAggregate"
proof -
  have z: "sum_list [0, 0, 0 :: real] = 0" by simp
  show ?thesis
    using degenerate_aggregate_fails [OF silent_infer z] silent_infer by simp
qed

end
